theory Spec2Isabelle
  imports Main "HOL-Library.Word"
begin

unbundle bit_operations_syntax

section \<open>CPU state (cpu.js, class CPU)\<close>

text \<open>
  The register banks are \<open>Uint32Array(32)\<close>: maps from an index to a 32-bit word. The
  flags \<open>N Z C V T\<close> are JavaScript numbers that the interpreter only ever assigns 0 or 1
  (\<open>? 1 : 0\<close>, \<open>& 1\<close>); they are modelled as booleans, \<open>True\<close> for 1. The counters are
  unbounded. \<open>miu\<close> is the handle to the memory interface unit, \<open>None\<close> for \<open>null\<close>; the
  state of that object is kept inside the handle.
\<close>

type_synonym u32 = "32 word"

record 'm CPU =
  miu :: "'m option"
  r :: "nat \<Rightarrow> u32"
  cr :: "nat \<Rightarrow> u32"
  sr :: "nat \<Rightarrow> u32"
  CEL :: u32
  CEH :: u32
  pc :: u32
  N :: bool
  Z :: bool
  C :: bool
  V :: bool
  T :: bool
  cycles :: nat
  instructions :: nat
  halted :: bool

text \<open>\<open>reset()\<close>, with the MIU handle the constructor received.\<close>

definition reset :: "'m option \<Rightarrow> 'm CPU" where
  "reset m = \<lparr> miu = m, r = (\<lambda>_. 0), cr = (\<lambda>_. 0), sr = (\<lambda>_. 0), CEL = 0, CEH = 0,
     pc = 0, N = False, Z = False, C = False, V = False, T = False,
     cycles = 0, instructions = 0, halted = False \<rparr>"

text \<open>A flag read as a number: 1 or 0.\<close>

definition flag :: "bool \<Rightarrow> u32" where
  "flag b = (if b then 1 else 0)"

text \<open>\<open>packSR0()\<close>: \<open>sr[0] = ((N & 1) << 31) | ((Z & 1) << 30) | ((C & 1) << 29) | ((V & 1) << 28) | (T & 1)\<close>.\<close>

definition packSR0 :: "'m CPU \<Rightarrow> 'm CPU" where
  "packSR0 s = s\<lparr> sr := (sr s)(0 :=
       push_bit 31 (flag (N s) AND 1) OR push_bit 30 (flag (Z s) AND 1)
       OR push_bit 29 (flag (C s) AND 1) OR push_bit 28 (flag (V s) AND 1)
       OR (flag (T s) AND 1)) \<rparr>"

text \<open>\<open>unpackSR0()\<close>: each flag is one bit of \<open>sr[0]\<close>.\<close>

definition unpackSR0 :: "'m CPU \<Rightarrow> 'm CPU" where
  "unpackSR0 s = (let v = sr s 0 in
     s\<lparr> N := (drop_bit 31 v AND 1 = 1), Z := (drop_bit 30 v AND 1 = 1),
        C := (drop_bit 29 v AND 1 = 1), V := (drop_bit 28 v AND 1 = 1),
        T := (drop_bit 0 v AND 1 = 1) \<rparr>)"

text \<open>
  \<open>exception(cause)\<close>. The cause is a JavaScript number (a trap number or an IRQ line);
  \<open>cause & 0x3F\<close> and the final \<open>>>> 0\<close> reduce it modulo \<open>2^32\<close>.
\<close>

definition exception :: "nat \<Rightarrow> 'm CPU \<Rightarrow> 'm CPU" where
  "exception cause s0 =
    (let s1 = packSR0 s0;
         s2 = s1\<lparr> cr := (cr s1)(1 := sr s1 0) \<rparr>;
         s3 = s2\<lparr> cr := (cr s2)(2 := (cr s2 2 AND NOT 0x00FC0000)
                                  OR push_bit 18 (word_of_nat cause AND 0x3F)) \<rparr>;
         s4 = s3\<lparr> cr := (cr s3)(5 := pc s3) \<rparr>;
         s5 = s4\<lparr> cr := (cr s4)(0 := cr s4 0 AND NOT 1) \<rparr>
     in s5\<lparr> pc := cr s5 3 + word_of_nat (cause * 4) \<rparr>)"

text \<open>\<open>rte()\<close>.\<close>

definition rte :: "'m CPU \<Rightarrow> 'm CPU" where
  "rte s = (let s1 = s\<lparr> sr := (sr s)(0 := cr s 1) \<rparr>;
                s2 = unpackSR0 s1
            in s2\<lparr> pc := cr s2 5 \<rparr>)"

text \<open>
  The memory interface as the interpreter sees it: an object with six methods. Addresses
  and data are 32-bit patterns (every call site passes an element of a \<open>Uint32Array\<close> or
  a value forced by \<open>>>> 0\<close>, and every result is stored into a \<open>Uint32Array\<close> or masked).
  A read may change the state of the object behind the handle (access counters,
  read-sensitive device registers), so it returns the new state as well.
\<close>

record 'm MIU_ops =
  miu_readU8 :: "u32 \<Rightarrow> 'm \<Rightarrow> u32 \<times> 'm"
  miu_readU16 :: "u32 \<Rightarrow> 'm \<Rightarrow> u32 \<times> 'm"
  miu_readU32 :: "u32 \<Rightarrow> 'm \<Rightarrow> u32 \<times> 'm"
  miu_writeU8 :: "u32 \<Rightarrow> u32 \<Rightarrow> 'm \<Rightarrow> 'm"
  miu_writeU16 :: "u32 \<Rightarrow> u32 \<Rightarrow> 'm \<Rightarrow> 'm"
  miu_writeU32 :: "u32 \<Rightarrow> u32 \<Rightarrow> 'm \<Rightarrow> 'm"

text \<open>\<open>getSystemRegister\<close>, \<open>setSystemRegister\<close>: the index is any JavaScript integer.\<close>

definition getSystemRegister :: "int \<Rightarrow> 'm CPU \<Rightarrow> u32" where
  "getSystemRegister idx s = (if 0 \<le> idx \<and> idx < 32 then sr s (nat idx) else 0)"

definition setSystemRegister :: "int \<Rightarrow> u32 \<Rightarrow> 'm CPU \<Rightarrow> 'm CPU" where
  "setSystemRegister idx v s =
     (if 0 \<le> idx \<and> idx < 32
      then (let s1 = s\<lparr> sr := (sr s)(nat idx := v) \<rparr>
            in if idx = 0 then unpackSR0 s1 else s1)
      else s)"

text \<open>\<open>signExtend(x, b)\<close>.\<close>

definition signExtend :: "u32 \<Rightarrow> nat \<Rightarrow> u32" where
  "signExtend x b =
     (if b \<ge> 32 then x
      else (let m = push_bit (b - 1) 1; x1 = x AND (push_bit b 1 - 1)
            in (x1 XOR m) - m))"

definition updateBasicFlags :: "u32 \<Rightarrow> 'm CPU \<Rightarrow> 'm CPU" where
  "updateBasicFlags res s = s\<lparr> N := (drop_bit 31 res AND 1 = 1), Z := (res = 0) \<rparr>"

subsection \<open>ALU helpers: each returns its result and the CPU with the flags it set\<close>

definition add :: "u32 \<Rightarrow> u32 \<Rightarrow> bool \<Rightarrow> 'm CPU \<Rightarrow> u32 \<times> 'm CPU" where
  "add a b updateFlags s =
     (let res = a + b in
      if updateFlags
      then (res, (updateBasicFlags res s)
                   \<lparr> C := (unat b > 0xFFFFFFFF - unat a),
                      V := (drop_bit 31 (NOT (a XOR b) AND (a XOR res)) AND 1 = 1) \<rparr>)
      else (res, s))"

definition addc :: "u32 \<Rightarrow> u32 \<Rightarrow> bool \<Rightarrow> 'm CPU \<Rightarrow> u32 \<times> 'm CPU" where
  "addc a b updateFlags s =
     (let res = a + b + flag (C s) in
      if updateFlags
      then (res, (updateBasicFlags res s)
                   \<lparr> C := (unat b + unat (flag (C s)) > 0xFFFFFFFF - unat a),
                      V := (drop_bit 31 (NOT (a XOR b) AND (a XOR res)) AND 1 = 1) \<rparr>)
      else (res, s))"

definition sub :: "u32 \<Rightarrow> u32 \<Rightarrow> bool \<Rightarrow> 'm CPU \<Rightarrow> u32 \<times> 'm CPU" where
  "sub a b updateFlags s =
     (let res = a - b in
      if updateFlags
      then (res, (updateBasicFlags res s)
                   \<lparr> C := (a \<ge> b),
                      V := (drop_bit 31 ((a XOR b) AND NOT (res XOR b)) AND 1 = 1) \<rparr>)
      else (res, s))"

definition subc :: "u32 \<Rightarrow> u32 \<Rightarrow> bool \<Rightarrow> 'm CPU \<Rightarrow> u32 \<times> 'm CPU" where
  "subc a b updateFlags s =
     (let borrow = (if \<not> C s then 1 else 0 :: u32);
          res = a - b - borrow in
      if updateFlags
      then (res, (updateBasicFlags res s)
                   \<lparr> C := (unat a \<ge> unat b + unat borrow),
                      V := (drop_bit 31 ((a XOR b) AND NOT (res XOR b)) AND 1 = 1) \<rparr>)
      else (res, s))"

definition neg :: "u32 \<Rightarrow> bool \<Rightarrow> 'm CPU \<Rightarrow> u32 \<times> 'm CPU" where
  "neg a updateFlags s =
     (let res = 0 - a in
      if updateFlags
      then (res, (updateBasicFlags res s)\<lparr> C := (a = 0), V := (a = 0x80000000) \<rparr>)
      else (res, s))"

definition bitOp :: "u32 \<Rightarrow> u32 \<Rightarrow> string \<Rightarrow> bool \<Rightarrow> 'm CPU \<Rightarrow> u32 \<times> 'm CPU" where
  "bitOp a b type updateFlags s =
     (let res = (if type = ''and'' then a AND b
                 else if type = ''or'' then a OR b
                 else if type = ''xor'' then a XOR b
                 else if type = ''not'' then NOT a
                 else 0)
      in (res, if updateFlags then updateBasicFlags res s else s))"

definition sll :: "u32 \<Rightarrow> u32 \<Rightarrow> bool \<Rightarrow> 'm CPU \<Rightarrow> u32 \<times> 'm CPU" where
  "sll a sa0 updateFlags s =
     (let sa = unat (sa0 AND 0x1F); res = push_bit sa a in
      if updateFlags
      then (res, (let s1 = updateBasicFlags res s
                  in if sa > 0 then s1\<lparr> C := (drop_bit (32 - sa) a AND 1 = 1) \<rparr> else s1))
      else (res, s))"

definition srl :: "u32 \<Rightarrow> u32 \<Rightarrow> bool \<Rightarrow> 'm CPU \<Rightarrow> u32 \<times> 'm CPU" where
  "srl a sa0 updateFlags s =
     (let sa = unat (sa0 AND 0x1F); res = drop_bit sa a in
      if updateFlags
      then (res, (let s1 = updateBasicFlags res s
                  in if sa > 0 then s1\<lparr> C := (drop_bit (sa - 1) a AND 1 = 1) \<rparr> else s1))
      else (res, s))"

definition sra :: "u32 \<Rightarrow> u32 \<Rightarrow> bool \<Rightarrow> 'm CPU \<Rightarrow> u32 \<times> 'm CPU" where
  "sra a sa0 updateFlags s =
     (let sa = unat (sa0 AND 0x1F); res = signed_drop_bit sa a in
      if updateFlags
      then (res, (let s1 = updateBasicFlags res s
                  in if sa > 0 then s1\<lparr> C := (drop_bit (sa - 1) a AND 1 = 1) \<rparr> else s1))
      else (res, s))"

definition ror :: "u32 \<Rightarrow> u32 \<Rightarrow> bool \<Rightarrow> 'm CPU \<Rightarrow> u32 \<times> 'm CPU" where
  "ror a sa0 updateFlags s =
     (let sa = unat (sa0 AND 0x1F) in
      if sa = 0 then (a, s)
      else (let res = drop_bit sa a OR push_bit (32 - sa) a in
            if updateFlags
            then (res, (updateBasicFlags res s)\<lparr> C := (drop_bit (sa - 1) a AND 1 = 1) \<rparr>)
            else (res, s)))"

definition rol :: "u32 \<Rightarrow> u32 \<Rightarrow> bool \<Rightarrow> 'm CPU \<Rightarrow> u32 \<times> 'm CPU" where
  "rol a sa0 updateFlags s =
     (let sa = unat (sa0 AND 0x1F) in
      if sa = 0 then (a, s)
      else (let res = push_bit sa a OR drop_bit (32 - sa) a in
            if updateFlags
            then (res, (updateBasicFlags res s)\<lparr> C := (drop_bit (32 - sa) a AND 1 = 1) \<rparr>)
            else (res, s)))"

definition rorc :: "u32 \<Rightarrow> bool \<Rightarrow> 'm CPU \<Rightarrow> u32 \<times> 'm CPU" where
  "rorc a updateFlags s =
     (let res = drop_bit 1 a OR push_bit 31 (flag (C s) AND 1) in
      if updateFlags
      then (res, (updateBasicFlags res s)\<lparr> C := (a AND 1 = 1) \<rparr>)
      else (res, s))"

definition rolc :: "u32 \<Rightarrow> bool \<Rightarrow> 'm CPU \<Rightarrow> u32 \<times> 'm CPU" where
  "rolc a updateFlags s =
     (let res = push_bit 1 a OR (flag (C s) AND 1) in
      if updateFlags
      then (res, (updateBasicFlags res s)\<lparr> C := (drop_bit 31 a AND 1 = 1) \<rparr>)
      else (res, s))"

definition extsb :: "u32 \<Rightarrow> bool \<Rightarrow> 'm CPU \<Rightarrow> u32 \<times> 'm CPU" where
  "extsb a updateFlags s =
     (let res0 = a AND 0xFF;
          res = (if res0 AND 0x80 \<noteq> 0 then res0 OR 0xFFFFFF00 else res0)
      in (res, if updateFlags then updateBasicFlags res s else s))"

definition extsh :: "u32 \<Rightarrow> bool \<Rightarrow> 'm CPU \<Rightarrow> u32 \<times> 'm CPU" where
  "extsh a updateFlags s =
     (let res0 = a AND 0xFFFF;
          res = (if res0 AND 0x8000 \<noteq> 0 then res0 OR 0xFFFF0000 else res0)
      in (res, if updateFlags then updateBasicFlags res s else s))"

definition extzb :: "u32 \<Rightarrow> bool \<Rightarrow> 'm CPU \<Rightarrow> u32 \<times> 'm CPU" where
  "extzb a updateFlags s =
     (let res = a AND 0xFF in (res, if updateFlags then updateBasicFlags res s else s))"

definition extzh :: "u32 \<Rightarrow> bool \<Rightarrow> 'm CPU \<Rightarrow> u32 \<times> 'm CPU" where
  "extzh a updateFlags s =
     (let res = a AND 0xFFFF in (res, if updateFlags then updateBasicFlags res s else s))"

definition bitclr :: "u32 \<Rightarrow> u32 \<Rightarrow> bool \<Rightarrow> 'm CPU \<Rightarrow> u32 \<times> 'm CPU" where
  "bitclr a bitIdx0 updateFlags s =
     (let bitIdx = unat (bitIdx0 AND 0x1F); res = a AND NOT (push_bit bitIdx 1)
      in (res, if updateFlags then updateBasicFlags res s else s))"

definition bitset :: "u32 \<Rightarrow> u32 \<Rightarrow> bool \<Rightarrow> 'm CPU \<Rightarrow> u32 \<times> 'm CPU" where
  "bitset a bitIdx0 updateFlags s =
     (let bitIdx = unat (bitIdx0 AND 0x1F); res = a OR push_bit bitIdx 1
      in (res, if updateFlags then updateBasicFlags res s else s))"

definition bittst :: "u32 \<Rightarrow> u32 \<Rightarrow> 'm CPU \<Rightarrow> 'm CPU" where
  "bittst a bitIdx0 s =
     (let bitIdx = unat (bitIdx0 AND 0x1F);
          s1 = s\<lparr> T := (a AND push_bit bitIdx 1 \<noteq> 0) \<rparr>
      in s1\<lparr> Z := (\<not> T s1) \<rparr>)"

definition bittgl :: "u32 \<Rightarrow> u32 \<Rightarrow> bool \<Rightarrow> 'm CPU \<Rightarrow> u32 \<times> 'm CPU" where
  "bittgl a bitIdx0 updateFlags s =
     (let bitIdx = unat (bitIdx0 AND 0x1F); res = a XOR push_bit bitIdx 1
      in (res, if updateFlags then updateBasicFlags res s else s))"

text \<open>\<open>conditional(cond)\<close>: the sixteen condition codes.\<close>

definition conditional :: "u32 \<Rightarrow> 'm CPU \<Rightarrow> bool" where
  "conditional cond0 s =
     (let cond = cond0 AND 0x0F in
      if cond = 0x00 then C s
      else if cond = 0x01 then \<not> C s
      else if cond = 0x02 then C s \<and> \<not> Z s
      else if cond = 0x03 then \<not> C s \<or> Z s
      else if cond = 0x04 then Z s
      else if cond = 0x05 then \<not> Z s
      else if cond = 0x06 then N s = V s \<and> \<not> Z s
      else if cond = 0x07 then N s \<noteq> V s \<or> Z s
      else if cond = 0x08 then N s = V s
      else if cond = 0x09 then N s \<noteq> V s
      else if cond = 0x0A then N s
      else if cond = 0x0B then \<not> N s
      else if cond = 0x0C then V s
      else if cond = 0x0D then \<not> V s
      else if cond = 0x0E then T s
      else if cond = 0x0F then True
      else False)"

subsection \<open>Multiply and divide into CEL / CEH\<close>

text \<open>
  \<open>execMul\<close> multiplies as \<open>BigInt\<close>: the exact signed product, whose low and high 32 bits go
  to CEL and CEH (\<open>>> 32n\<close> rounds towards minus infinity, as \<open>div\<close> does).
\<close>

definition execMul :: "u32 \<Rightarrow> u32 \<Rightarrow> 'm CPU \<Rightarrow> 'm CPU" where
  "execMul a b s = (let res = sint a * sint b
                    in s\<lparr> CEL := word_of_int res, CEH := word_of_int (res div 2 ^ 32) \<rparr>)"

definition execMulu :: "u32 \<Rightarrow> u32 \<Rightarrow> 'm CPU \<Rightarrow> 'm CPU" where
  "execMulu a b s = (let res = uint a * uint b
                     in s\<lparr> CEL := word_of_int res, CEH := word_of_int (res div 2 ^ 32) \<rparr>)"

text \<open>
  \<open>Math.trunc(sA / sB)\<close> and JavaScript's \<open>%\<close> truncate towards zero; on 32-bit operands
  the floating-point quotient truncates to the exact integer quotient.
\<close>

definition trunc_div :: "int \<Rightarrow> int \<Rightarrow> int" where
  "trunc_div x y = sgn x * sgn y * (\<bar>x\<bar> div \<bar>y\<bar>)"

definition trunc_rem :: "int \<Rightarrow> int \<Rightarrow> int" where
  "trunc_rem x y = x - y * trunc_div x y"

definition execDiv :: "u32 \<Rightarrow> u32 \<Rightarrow> 'm CPU \<Rightarrow> 'm CPU" where
  "execDiv a b s =
     (let sA = sint a; sB = sint b in
      if sB \<noteq> 0
      then s\<lparr> CEL := word_of_int (trunc_div sA sB), CEH := word_of_int (trunc_rem sA sB) \<rparr>
      else s)"

definition execDivu :: "u32 \<Rightarrow> u32 \<Rightarrow> 'm CPU \<Rightarrow> 'm CPU" where
  "execDivu a b s =
     (if b \<noteq> 0 then s\<lparr> CEL := a div b, CEH := a mod b \<rparr> else s)"

definition moveFromCE :: "nat \<Rightarrow> u32 \<Rightarrow> 'm CPU \<Rightarrow> 'm CPU" where
  "moveFromCE rD rB0 s =
     (let rB = rB0 AND 0x03 in
      if rB = 1 then s\<lparr> r := (r s)(rD := CEL s) \<rparr>
      else if rB = 2 then s\<lparr> r := (r s)(rD := CEH s) \<rparr>
      else if rB = 3
      then (let s1 = s\<lparr> r := (r s)(rD := CEL s) \<rparr>
            in if rD < 31 then s1\<lparr> r := (r s1)(rD + 1 := CEH s1) \<rparr> else s1)
      else s)"

definition moveToCE :: "nat \<Rightarrow> u32 \<Rightarrow> 'm CPU \<Rightarrow> 'm CPU" where
  "moveToCE rD rB0 s =
     (let rB = rB0 AND 0x03 in
      if rB = 1 then s\<lparr> CEL := r s rD \<rparr>
      else if rB = 2 then s\<lparr> CEH := r s rD \<rparr>
      else if rB = 3
      then (let s1 = s\<lparr> CEL := r s rD \<rparr>
            in if rD < 31 then s1\<lparr> CEH := r s1 (rD + 1) \<rparr> else s1)
      else s)"

subsection \<open>Register write-back and memory access through the handle\<close>

text \<open>\<open>this.r[d] = <helper>(...)\<close>: store the helper's result in \<open>r[d]\<close> of the state it left.\<close>

definition setR :: "nat \<Rightarrow> u32 \<times> 'm CPU \<Rightarrow> 'm CPU" where
  "setR d p = (snd p)\<lparr> r := (r (snd p))(d := fst p) \<rparr>"

text \<open>
  \<open>this.r[d] = ext(this.miu.readX(addr))\<close> and \<open>this.miu.writeX(addr, v)\<close>. The callers
  either guard the access with \<open>if (this.miu)\<close> or return before it when the handle is
  null; with no handle nothing happens.
\<close>

definition loadR :: "(u32 \<Rightarrow> 'm \<Rightarrow> u32 \<times> 'm) \<Rightarrow> (u32 \<Rightarrow> u32) \<Rightarrow> nat \<Rightarrow> u32 \<Rightarrow> 'm CPU \<Rightarrow> 'm CPU" where
  "loadR rd ext d addr s =
     (case miu s of
        None \<Rightarrow> s
      | Some m \<Rightarrow> (let p = rd addr m
                   in s\<lparr> miu := Some (snd p), r := (r s)(d := ext (fst p)) \<rparr>))"

definition storeM :: "(u32 \<Rightarrow> u32 \<Rightarrow> 'm \<Rightarrow> 'm) \<Rightarrow> u32 \<Rightarrow> u32 \<Rightarrow> 'm CPU \<Rightarrow> 'm CPU" where
  "storeM wr addr v s =
     (case miu s of
        None \<Rightarrow> s
      | Some m \<Rightarrow> s\<lparr> miu := Some (wr addr v m) \<rparr>)"

subsection \<open>The form executors: each returns the PC increment (0 after a taken jump)\<close>

definition execSpForm :: "'m MIU_ops \<Rightarrow> u32 \<Rightarrow> 'm CPU \<Rightarrow> nat \<times> 'm CPU" where
  "execSpForm ops insn s =
    (let rDw = drop_bit 22 insn AND 0x1F; rD = unat rDw;
         rA = unat (drop_bit 17 insn AND 0x1F);
         rBw = drop_bit 12 insn AND 0x1F; rB = unat rBw;
         func6 = drop_bit 1 insn AND 0x3F;
         CU = (insn AND 1 = 1)
     in
      if func6 = 0x00 then (4, s)
      else if func6 = 0x01 then (4, s)
      else if func6 = 0x02 then (4, if conditional rBw s then exception 0x02 s else s)
      else if func6 = 0x03 then (4, exception 0x03 s)
      else if func6 = 0x04 then
        (if conditional rBw s
         then (let s1 = (if CU then s\<lparr> r := (r s)(3 := pc s + 4) \<rparr> else s)
               in (0, s1\<lparr> pc := r s1 rA \<rparr>))
         else (4, s))
      else if func6 = 0x05 then (4, s)
      else if func6 = 0x06 then (4, loadR (miu_readU32 ops) id rD (r s rA) s)
      else if func6 = 0x07 then (4, storeM (miu_writeU32 ops) (r s rA) (r s rD) s)
      else if func6 = 0x08 then (4, setR rD (add (r s rA) (r s rB) CU s))
      else if func6 = 0x09 then (4, setR rD (addc (r s rA) (r s rB) CU s))
      else if func6 = 0x0A then (4, setR rD (sub (r s rA) (r s rB) CU s))
      else if func6 = 0x0B then (4, setR rD (subc (r s rA) (r s rB) CU s))
      else if func6 = 0x0C then
        (let s1 = snd (sub (r s rA) (r s rB) True s) in (4, s1\<lparr> T := conditional rDw s1 \<rparr>))
      else if func6 = 0x0D then
        (let s1 = snd (sub (r s rA) 0 True s) in (4, s1\<lparr> T := conditional rDw s1 \<rparr>))
      else if func6 = 0x0F then (4, setR rD (neg (r s rA) CU s))
      else if func6 = 0x10 then (4, setR rD (bitOp (r s rA) (r s rB) ''and'' CU s))
      else if func6 = 0x11 then (4, setR rD (bitOp (r s rA) (r s rB) ''or'' CU s))
      else if func6 = 0x12 then (4, setR rD (bitOp (r s rA) 0 ''not'' CU s))
      else if func6 = 0x13 then (4, setR rD (bitOp (r s rA) (r s rB) ''xor'' CU s))
      else if func6 = 0x14 then (4, setR rD (bitclr (r s rA) rBw CU s))
      else if func6 = 0x15 then (4, setR rD (bitset (r s rA) rBw CU s))
      else if func6 = 0x16 then (4, bittst (r s rA) rBw s)
      else if func6 = 0x17 then (4, setR rD (bittgl (r s rA) rBw CU s))
      else if func6 = 0x18 then (4, setR rD (sll (r s rA) (r s rB) CU s))
      else if func6 = 0x1A then (4, setR rD (srl (r s rA) (r s rB) CU s))
      else if func6 = 0x1B then (4, setR rD (sra (r s rA) (r s rB) CU s))
      else if func6 = 0x1C then (4, setR rD (ror (r s rA) (r s rB) CU s))
      else if func6 = 0x1D then (4, setR rD (rorc (r s rA) CU s))
      else if func6 = 0x1E then (4, setR rD (rol (r s rA) (r s rB) CU s))
      else if func6 = 0x1F then (4, setR rD (rolc (r s rA) CU s))
      else if func6 = 0x20 then (4, execMul (r s rA) (r s rB) s)
      else if func6 = 0x21 then (4, execMulu (r s rA) (r s rB) s)
      else if func6 = 0x22 then (4, execDiv (r s rA) (r s rB) s)
      else if func6 = 0x23 then (4, execDivu (r s rA) (r s rB) s)
      else if func6 = 0x24 then (4, moveFromCE rD rBw s)
      else if func6 = 0x25 then (4, moveToCE rD rBw s)
      else if func6 = 0x28 then (4, s\<lparr> r := (r s)(rD := sr s rB) \<rparr>)
      else if func6 = 0x29 then
        (let s1 = s\<lparr> sr := (sr s)(rB := r s rA) \<rparr>
         in (4, if rB = 0 then unpackSR0 s1 else s1))
      else if func6 = 0x2A then (4, s\<lparr> T := conditional rBw s \<rparr>)
      else if func6 = 0x2B then
        (4, if conditional rBw s then s\<lparr> r := (r s)(rD := r s rA) \<rparr> else s)
      else if func6 = 0x2C then (4, setR rD (extsb (r s rA) CU s))
      else if func6 = 0x2D then (4, setR rD (extsh (r s rA) CU s))
      else if func6 = 0x2E then (4, setR rD (extzb (r s rA) CU s))
      else if func6 = 0x2F then (4, setR rD (extzh (r s rA) CU s))
      else if func6 = 0x30 then (4, loadR (miu_readU8 ops) id rD (r s rA) s)
      else if func6 = 0x31 then (4, loadR (miu_readU32 ops) id rD (r s rA) s)
      else if func6 = 0x34 then (4, storeM (miu_writeU8 ops) (r s rA) (r s rD AND 0xFF) s)
      else if func6 = 0x35 then (4, storeM (miu_writeU32 ops) (r s rA) (r s rD) s)
      else if func6 = 0x38 then (4, setR rD (sll (r s rA) rBw CU s))
      else if func6 = 0x3A then (4, setR rD (srl (r s rA) rBw CU s))
      else if func6 = 0x3B then (4, setR rD (sra (r s rA) rBw CU s))
      else if func6 = 0x3C then (4, setR rD (ror (r s rA) rBw CU s))
      else if func6 = 0x3D then (4, setR rD (rorc (r s rA) True s))
      else if func6 = 0x3E then (4, setR rD (rol (r s rA) rBw CU s))
      else if func6 = 0x3F then (4, setR rD (rolc (r s rA) True s))
      else (4, s))"

definition execIForm :: "u32 \<Rightarrow> 'm CPU \<Rightarrow> nat \<times> 'm CPU" where
  "execIForm insn s =
    (let OP = drop_bit 27 insn AND 0x1F;
         rD = unat (drop_bit 22 insn AND 0x1F);
         func3 = drop_bit 19 insn AND 0x07;
         imm16 = signExtend (drop_bit 1 insn AND 0xFFFF) 16
     in
      if OP = 0x01 then
        (if func3 = 0x00 then (4, setR rD (add (r s rD) imm16 False s))
         else if func3 = 0x02 then (4, snd (sub (r s rD) imm16 True s))
         else if func3 = 0x04 then (4, setR rD (bitOp (r s rD) imm16 ''and'' False s))
         else if func3 = 0x05 then (4, setR rD (bitOp (r s rD) imm16 ''or'' False s))
         else if func3 = 0x06 then (4, s\<lparr> r := (r s)(rD := imm16) \<rparr>)
         else (4, s))
      else if OP = 0x05 then
        (if func3 = 0x00 then (4, setR rD (add (r s rD) (push_bit 16 imm16) False s))
         else if func3 = 0x02 then (4, snd (sub (r s rD) (push_bit 16 imm16) True s))
         else if func3 = 0x04 then (4, setR rD (bitOp (r s rD) (push_bit 16 imm16) ''and'' False s))
         else if func3 = 0x05 then (4, setR rD (bitOp (r s rD) (push_bit 16 imm16) ''or'' False s))
         else if func3 = 0x06 then (4, s\<lparr> r := (r s)(rD := push_bit 16 imm16) \<rparr>)
         else (4, s))
      else (4, s))"

definition execJForm :: "u32 \<Rightarrow> 'm CPU \<Rightarrow> nat \<times> 'm CPU" where
  "execJForm insn s =
    (let LK = (insn AND 1 \<noteq> 0);
         disp24 = drop_bit 1 insn AND 0xFFFFFF;
         target = (pc s AND 0xFE000000) OR push_bit 1 disp24;
         s1 = (if LK then s\<lparr> r := (r s)(3 := pc s + 4) \<rparr> else s)
     in (0, s1\<lparr> pc := target \<rparr>))"

definition execBForm :: "u32 \<Rightarrow> 'm CPU \<Rightarrow> nat \<times> 'm CPU" where
  "execBForm insn s =
    (let LK = (insn AND 1 \<noteq> 0);
         BC = drop_bit 23 insn AND 0x0F;
         disp_high = drop_bit 9 insn AND 0x3FFF;
         disp_low = drop_bit 1 insn AND 0xFF;
         disp22 = push_bit 8 disp_high OR disp_low;
         signed_disp = signExtend disp22 22;
         target = pc s + push_bit 1 signed_disp
     in
      if conditional BC s
      then (let s1 = (if LK then s\<lparr> r := (r s)(3 := pc s + 4) \<rparr> else s)
            in (0, s1\<lparr> pc := target \<rparr>))
      else (4, s))"

definition execRixForm :: "'m MIU_ops \<Rightarrow> u32 \<Rightarrow> 'm CPU \<Rightarrow> nat \<times> 'm CPU" where
  "execRixForm ops insn s =
    (let OP = drop_bit 27 insn AND 0x1F;
         rD = unat (drop_bit 22 insn AND 0x1F);
         rA = unat (drop_bit 17 insn AND 0x1F);
         imm12 = signExtend (drop_bit 5 insn AND 0xFFF) 12;
         func3 = drop_bit 2 insn AND 0x07;
         addr = r s rA + imm12
     in
      if miu s = None then (4, s)
      else
       (let s1 =
          (if func3 = 0x00 then loadR (miu_readU32 ops) id rD addr s
           else if func3 = 0x01 then loadR (miu_readU16 ops) (\<lambda>v. signExtend v 16) rD addr s
           else if func3 = 0x02 then loadR (miu_readU16 ops) id rD addr s
           else if func3 = 0x03 then loadR (miu_readU8 ops) (\<lambda>v. signExtend v 8) rD addr s
           else if func3 = 0x04 then storeM (miu_writeU32 ops) addr (r s rD) s
           else if func3 = 0x05 then storeM (miu_writeU16 ops) addr (r s rD) s
           else if func3 = 0x06 then loadR (miu_readU8 ops) id rD addr s
           else if func3 = 0x07 then storeM (miu_writeU8 ops) addr (r s rD) s
           else s)
        in (4, if OP = 0x03 then s1\<lparr> r := (r s1)(rA := addr) \<rparr> else s1)))"

definition execMemoryForm :: "'m MIU_ops \<Rightarrow> u32 \<Rightarrow> 'm CPU \<Rightarrow> nat \<times> 'm CPU" where
  "execMemoryForm ops insn s =
    (let OP = drop_bit 27 insn AND 0x1F;
         rD = unat (drop_bit 22 insn AND 0x1F);
         rA = unat (drop_bit 17 insn AND 0x1F);
         imm15 = signExtend (drop_bit 2 insn AND 0x7FFF) 15;
         addr = r s rA + imm15
     in
      if miu s = None then (4, s)
      else
       (4, if OP = 0x10 then loadR (miu_readU32 ops) id rD addr s
           else if OP = 0x11 then loadR (miu_readU16 ops) (\<lambda>v. signExtend v 16) rD addr s
           else if OP = 0x12 then loadR (miu_readU16 ops) id rD addr s
           else if OP = 0x13 then loadR (miu_readU8 ops) (\<lambda>v. signExtend v 8) rD addr s
           else if OP = 0x14 then storeM (miu_writeU32 ops) addr (r s rD) s
           else if OP = 0x15 then storeM (miu_writeU16 ops) addr (r s rD) s
           else if OP = 0x16 then loadR (miu_readU8 ops) id rD addr s
           else if OP = 0x17 then storeM (miu_writeU8 ops) addr (r s rD) s
           else s))"

definition exec16 :: "'m MIU_ops \<Rightarrow> u32 \<Rightarrow> 'm CPU \<Rightarrow> nat \<times> 'm CPU" where
  "exec16 ops insn s =
    (let OP = drop_bit 13 insn AND 0x07;
         rD = unat (drop_bit 1 insn AND 0x0F);
         rA = unat (drop_bit 5 insn AND 0x0F)
     in
      if OP = 0x00 then
        (let func4 = drop_bit 9 insn AND 0x0F in
         if func4 = 0x03 then (2, s\<lparr> r := (r s)(rD := r s rA) \<rparr>)
         else if func4 = 0x04 then (0, s\<lparr> pc := r s rA \<rparr>)
         else if func4 = 0x05 then
           (let s1 = s\<lparr> r := (r s)(3 := pc s + 2) \<rparr> in (0, s1\<lparr> pc := r s1 rA \<rparr>))
         else (2, s))
      else if OP = 0x02 then
        (let func4 = drop_bit 9 insn AND 0x0F;
             H = drop_bit 5 insn AND 1;
             targetReg = rD + (if H \<noteq> 0 then 16 else 0);
             spIdx = unat (drop_bit 6 insn AND 0x07)
         in
         if func4 = 0x00 then (2, setR rD (add (r s rD) (r s rA) True s))
         else if func4 = 0x01 then
           (let imm5 = drop_bit 5 insn AND 0x1F in (2, setR rD (add (r s rD) imm5 True s)))
         else if func4 = 0x02 then
           (let imm5 = drop_bit 5 insn AND 0x1F in (2, snd (sub (r s rD) imm5 True s)))
         else if func4 = 0x0A then
           (2, if miu s = None then s
               else (let s1 = loadR (miu_readU32 ops) id targetReg (r s spIdx) s
                     in s1\<lparr> r := (r s1)(spIdx := r s1 spIdx + 4) \<rparr>))
         else if func4 = 0x0E then
           (let s1 = s\<lparr> r := (r s)(spIdx := r s spIdx - 4) \<rparr>
            in (2, storeM (miu_writeU32 ops) (r s1 spIdx) (r s1 targetReg) s1))
         else (2, s))
      else if OP = 0x03 then
        (let imm5 = drop_bit 4 insn AND 0x1F;
             addr = r s rA + push_bit 2 imm5
         in if drop_bit 12 insn AND 1 \<noteq> 0
            then (2, storeM (miu_writeU32 ops) addr (r s rD) s)
            else (2, loadR (miu_readU32 ops) id rD addr s))
      else if OP = 0x07 then
        (let imm5 = drop_bit 5 insn AND 0x1F;
             addr = r s 2 + push_bit 2 imm5
         in if drop_bit 10 insn AND 1 \<noteq> 0
            then (2, storeM (miu_writeU32 ops) addr (r s rD) s)
            else (2, loadR (miu_readU32 ops) id rD addr s))
      else (2, s))"

subsection \<open>\<open>step()\<close>\<close>

text \<open>
  The \<open>switch (OP)\<close> of \<open>step()\<close>. Opcodes \<open>0x08..0x0F\<close> and \<open>0x18..0x1F\<close> run the low
  halfword as a 16-bit instruction; no \<open>case\<close> names \<open>0x06\<close>, which falls to \<open>default\<close> with
  the increment left at 4.
\<close>

definition dispatch :: "'m MIU_ops \<Rightarrow> u32 \<Rightarrow> 'm CPU \<Rightarrow> nat \<times> 'm CPU" where
  "dispatch ops encoded s0 =
     (let OP = drop_bit 27 encoded AND 0x1F in
      if OP = 0x00 then execSpForm ops encoded s0
      else if OP = 0x01 \<or> OP = 0x05 then execIForm encoded s0
      else if OP = 0x02 then execJForm encoded s0
      else if OP = 0x03 \<or> OP = 0x07 then execRixForm ops encoded s0
      else if OP = 0x04 then execBForm encoded s0
      else if OP = 0x10 \<or> OP = 0x11 \<or> OP = 0x12 \<or> OP = 0x13
            \<or> OP = 0x14 \<or> OP = 0x15 \<or> OP = 0x16 \<or> OP = 0x17
      then execMemoryForm ops encoded s0
      else if OP = 0x08 \<or> OP = 0x09 \<or> OP = 0x0A \<or> OP = 0x0B
            \<or> OP = 0x0C \<or> OP = 0x0D \<or> OP = 0x0E \<or> OP = 0x0F
            \<or> OP = 0x18 \<or> OP = 0x19 \<or> OP = 0x1A \<or> OP = 0x1B
            \<or> OP = 0x1C \<or> OP = 0x1D \<or> OP = 0x1E \<or> OP = 0x1F
      then exec16 ops (encoded AND 0xFFFF) s0
      else (4, s0))"

text \<open>
  \<open>step()\<close>: the result is the boolean it returns and the CPU it leaves. The fetch goes
  through the handle and may change the object behind it. The model takes the MIU's
  methods to return normally and not to reach back into the CPU.
\<close>

definition step :: "'m MIU_ops \<Rightarrow> 'm CPU \<Rightarrow> bool \<times> 'm CPU" where
  "step ops s =
    (if halted s then (False, s)
     else case miu s of
       None \<Rightarrow> (False, s)
     | Some m \<Rightarrow>
        (let f = miu_readU32 ops (pc s) m;
             encoded = fst f;
             s0 = s\<lparr> miu := Some (snd f) \<rparr>;
             res = dispatch ops encoded s0;
             result = fst res; s1 = snd res;
             s2 = (if result \<noteq> 0 then s1\<lparr> pc := pc s1 + word_of_nat result \<rparr> else s1)
         in (True, s2\<lparr> cycles := cycles s2 + 1, instructions := instructions s2 + 1 \<rparr>)))"

text \<open>\<open>halt()\<close> and \<open>resume()\<close>.\<close>

definition halt :: "'m CPU \<Rightarrow> 'm CPU" where
  "halt s = s\<lparr> halted := True \<rparr>"

definition resume :: "'m CPU \<Rightarrow> 'm CPU" where
  "resume s = s\<lparr> halted := False \<rparr>"

text \<open>The fields that no form executor writes: the two counters and \<open>halted\<close>.\<close>

definition counters :: "'m CPU \<Rightarrow> nat \<times> nat \<times> bool" where
  "counters s = (cycles s, instructions s, halted s)"

section \<open>MMIO region (io.js, class IOMemoryRegion)\<close>

text \<open>
  A handler is the pair of closures that \<open>registerHandler(offset, readFn, writeFn)\<close>
  stores. The closures the engine registers act on peripheral objects outside the
  region; their combined state is the type \<open>'p\<close>, kept in the field \<open>periph\<close>. An omitted
  closure (\<open>None\<close>) is replaced by the default one, which reads or writes the region's own
  cell \<open>registers[wordOffset]\<close>. A read closure yields a number, which \<open>readU32\<close> forces to
  32 bits with \<open>>>> 0\<close>, and it may change the peripheral (a read-sensitive register).
\<close>

record 'p Handler =
  readFn :: "('p \<Rightarrow> u32 \<times> 'p) option"
  writeFn :: "(u32 \<Rightarrow> 'p \<Rightarrow> 'p) option"

record 'p IOMemoryRegion =
  registers :: "nat \<Rightarrow> u32"
  size_io :: nat
  handlers :: "nat \<rightharpoonup> 'p Handler"
  periph :: 'p
  reads8 :: nat
  reads16 :: nat
  reads32 :: nat
  writes8 :: nat
  writes16 :: nat
  writes32 :: nat
  handlerCalls :: nat

text \<open>The constructor: \<open>sizeBytes >>> 2\<close> zeroed cells, no handlers.\<close>

definition IOMemoryRegion_new :: "nat \<Rightarrow> 'p \<Rightarrow> 'p IOMemoryRegion" where
  "IOMemoryRegion_new sizeBytes p =
     \<lparr> registers = (\<lambda>_. 0), size_io = sizeBytes, handlers = Map.empty, periph = p,
       reads8 = 0, reads16 = 0, reads32 = 0, writes8 = 0, writes16 = 0, writes32 = 0,
       handlerCalls = 0 \<rparr>"

text \<open>\<open>(offset >>> 2) & ((this.size >>> 2) - 1)\<close>.\<close>

definition wordOffset :: "'p IOMemoryRegion \<Rightarrow> u32 \<Rightarrow> nat" where
  "wordOffset io offset = unat (drop_bit 2 offset AND (word_of_nat (size_io io div 4) - 1))"

text \<open>
  A cell of the \<open>Uint32Array\<close>: outside its \<open>size >>> 2\<close> elements a read gives
  \<open>undefined\<close>, which \<open>>>> 0\<close> turns into 0, and a write is dropped.
\<close>

definition getCell :: "'p IOMemoryRegion \<Rightarrow> nat \<Rightarrow> u32" where
  "getCell io i = (if i < size_io io div 4 then registers io i else 0)"

definition setCell :: "nat \<Rightarrow> u32 \<Rightarrow> 'p IOMemoryRegion \<Rightarrow> 'p IOMemoryRegion" where
  "setCell i v io = (if i < size_io io div 4 then io\<lparr> registers := (registers io)(i := v) \<rparr> else io)"

definition registerHandler ::
  "u32 \<Rightarrow> ('p \<Rightarrow> u32 \<times> 'p) option \<Rightarrow> (u32 \<Rightarrow> 'p \<Rightarrow> 'p) option
     \<Rightarrow> 'p IOMemoryRegion \<Rightarrow> 'p IOMemoryRegion" where
  "registerHandler offset rfn wfn io =
     io\<lparr> handlers := (handlers io)(wordOffset io offset \<mapsto> \<lparr> readFn = rfn, writeFn = wfn \<rparr>) \<rparr>"

definition unregisterHandler :: "u32 \<Rightarrow> 'p IOMemoryRegion \<Rightarrow> 'p IOMemoryRegion" where
  "unregisterHandler offset io = io\<lparr> handlers := (handlers io)(wordOffset io offset := None) \<rparr>"

text \<open>
  \<open>handler.readFn()\<close> and \<open>handler.writeFn(value)\<close> on the handler stored for word \<open>w\<close>: the
  registered closure, or the default one when none was given.
\<close>

definition callRead :: "'p Handler \<Rightarrow> nat \<Rightarrow> 'p IOMemoryRegion \<Rightarrow> u32 \<times> 'p IOMemoryRegion" where
  "callRead h w io =
     (case readFn h of
        Some f \<Rightarrow> (let p = f (periph io) in (fst p, io\<lparr> periph := snd p \<rparr>))
      | None \<Rightarrow> (getCell io w, io))"

definition callWrite :: "'p Handler \<Rightarrow> nat \<Rightarrow> u32 \<Rightarrow> 'p IOMemoryRegion \<Rightarrow> 'p IOMemoryRegion" where
  "callWrite h w v io =
     (case writeFn h of
        Some f \<Rightarrow> io\<lparr> periph := f v (periph io) \<rparr>
      | None \<Rightarrow> setCell w v io)"

definition IO_readU32 :: "u32 \<Rightarrow> 'p IOMemoryRegion \<Rightarrow> u32 \<times> 'p IOMemoryRegion" where
  "IO_readU32 offset io =
     (let w = wordOffset io offset;
          io1 = io\<lparr> reads32 := reads32 io + 1 \<rparr>
      in case handlers io1 w of
           Some h \<Rightarrow> callRead h w (io1\<lparr> handlerCalls := handlerCalls io1 + 1 \<rparr>)
         | None \<Rightarrow> (getCell io1 w, io1))"

definition IO_readU8 :: "u32 \<Rightarrow> 'p IOMemoryRegion \<Rightarrow> u32 \<times> 'p IOMemoryRegion" where
  "IO_readU8 offset io =
     (let p = IO_readU32 (offset AND NOT 3) io;
          shift = unat (offset AND 3) * 8;
          io1 = (snd p)\<lparr> reads8 := reads8 (snd p) + 1 \<rparr>
      in (drop_bit shift (fst p) AND 0xFF, io1))"

definition IO_readU16 :: "u32 \<Rightarrow> 'p IOMemoryRegion \<Rightarrow> u32 \<times> 'p IOMemoryRegion" where
  "IO_readU16 offset io =
     (let p = IO_readU32 (offset AND NOT 3) io;
          shift = unat (offset AND 2) * 8;
          io1 = (snd p)\<lparr> reads16 := reads16 (snd p) + 1 \<rparr>
      in (drop_bit shift (fst p) AND 0xFFFF, io1))"

definition IO_writeU32 :: "u32 \<Rightarrow> u32 \<Rightarrow> 'p IOMemoryRegion \<Rightarrow> 'p IOMemoryRegion" where
  "IO_writeU32 offset v io =
     (let w = wordOffset io offset;
          io1 = io\<lparr> writes32 := writes32 io + 1 \<rparr>
      in case handlers io1 w of
           Some h \<Rightarrow> callWrite h w v (io1\<lparr> handlerCalls := handlerCalls io1 + 1 \<rparr>)
         | None \<Rightarrow> setCell w v io1)"

text \<open>
  The word that \<open>writeU8\<close> and \<open>writeU16\<close> write back:
  \<open>(word & ~(0xFF << shift)) | ((value & 0xFF) << shift)\<close> with \<open>shift = (offset & 3) * 8\<close>,
  and the same with \<open>0xFFFF\<close> and \<open>shift = (offset & 2) * 8\<close>.
\<close>

definition mergeByte :: "u32 \<Rightarrow> u32 \<Rightarrow> u32 \<Rightarrow> u32" where
  "mergeByte offset word v =
     (let shift = unat (offset AND 3) * 8
      in (word AND NOT (push_bit shift 0xFF)) OR push_bit shift (v AND 0xFF))"

definition mergeHalf :: "u32 \<Rightarrow> u32 \<Rightarrow> u32 \<Rightarrow> u32" where
  "mergeHalf offset word v =
     (let shift = unat (offset AND 2) * 8
      in (word AND NOT (push_bit shift 0xFFFF)) OR push_bit shift (v AND 0xFFFF))"

text \<open>
  \<open>writeU8\<close> and \<open>writeU16\<close>: read the containing word, replace the addressed byte or
  halfword, write the word back.
\<close>

definition IO_writeU8 :: "u32 \<Rightarrow> u32 \<Rightarrow> 'p IOMemoryRegion \<Rightarrow> 'p IOMemoryRegion" where
  "IO_writeU8 offset v io =
     (let addr = offset AND NOT 3;
          p = IO_readU32 addr io;
          word = mergeByte offset (fst p) v;
          io1 = IO_writeU32 addr word (snd p)
      in io1\<lparr> writes8 := writes8 io1 + 1 \<rparr>)"

definition IO_writeU16 :: "u32 \<Rightarrow> u32 \<Rightarrow> 'p IOMemoryRegion \<Rightarrow> 'p IOMemoryRegion" where
  "IO_writeU16 offset v io =
     (let addr = offset AND NOT 3;
          p = IO_readU32 addr io;
          word = mergeHalf offset (fst p) v;
          io1 = IO_writeU32 addr word (snd p)
      in io1\<lparr> writes16 := writes16 io1 + 1 \<rparr>)"

text \<open>
  A scenario: a 64 KiB region whose peripheral is the list of the words written to it,
  with a handler at byte offset \<open>0x10\<close> that reads as \<open>0x11223344\<close> and appends each written
  word to the list.
\<close>

definition logging_io :: "(u32 list) IOMemoryRegion" where
  "logging_io = registerHandler 0x10 (Some (\<lambda>p. (0x11223344, p))) (Some (\<lambda>w p. p @ [w]))
                  (IOMemoryRegion_new 65536 [])"

section \<open>Backing-array region (arraymemoryregion.js, class ArrayMemoryRegion)\<close>

text \<open>
  One buffer of \<open>alignedSize\<close> bytes seen through the views \<open>u8\<close>, \<open>u16\<close> and \<open>u32\<close>. The model
  keeps the bytes; a halfword or word element is assembled from them little-endian, the
  byte order of the typed-array views on the hosts the emulator runs on. Every index is
  masked with the view's length minus one, so no access leaves the buffer. The access
  counters (telemetry) are left out.
\<close>

record ArrayMemoryRegion =
  u8 :: "nat \<Rightarrow> 8 word"
  u8_length :: nat
  writable :: bool

text \<open>What the constructors and the loader can throw.\<close>

datatype js_error = RangeError | TypeError | InvalidOpcode u32

text \<open>
  \<open>(sizeBytes + 3) & ~3\<close>: the sum is taken to 32 bits, its two low bits are cleared, and
  the result is read as a signed 32-bit integer. \<open>sizeBytes\<close> is an integer that a
  JavaScript number holds exactly.
\<close>

definition alignedSize :: "nat \<Rightarrow> int" where
  "alignedSize sizeBytes = sint ((word_of_nat (sizeBytes + 3) :: u32) AND NOT 3)"

text \<open>The region over a new buffer of \<open>alignedSize\<close> bytes: all zero, writable.\<close>

definition zeroed :: "nat \<Rightarrow> ArrayMemoryRegion" where
  "zeroed sizeBytes = \<lparr> u8 = (\<lambda>_. 0), u8_length = nat (alignedSize sizeBytes), writable = True \<rparr>"

text \<open>
  The constructor: a size that is not positive throws a \<open>TypeError\<close>, and
  \<open>new ArrayBuffer(alignedSize)\<close> throws a \<open>RangeError\<close> when the aligned size is negative.
\<close>

definition ArrayMemoryRegion_new :: "nat \<Rightarrow> js_error + ArrayMemoryRegion" where
  "ArrayMemoryRegion_new sizeBytes =
     (if sizeBytes = 0 then Inl TypeError
      else if alignedSize sizeBytes < 0 then Inl RangeError
      else Inr (zeroed sizeBytes))"

definition u16_at :: "ArrayMemoryRegion \<Rightarrow> nat \<Rightarrow> u32" where
  "u16_at a i = ucast (u8 a (2 * i)) OR push_bit 8 (ucast (u8 a (2 * i + 1)))"

definition u32_at :: "ArrayMemoryRegion \<Rightarrow> nat \<Rightarrow> u32" where
  "u32_at a i = ucast (u8 a (4 * i)) OR push_bit 8 (ucast (u8 a (4 * i + 1)))
                OR push_bit 16 (ucast (u8 a (4 * i + 2))) OR push_bit 24 (ucast (u8 a (4 * i + 3)))"

definition AMR_readU8 :: "u32 \<Rightarrow> ArrayMemoryRegion \<Rightarrow> u32" where
  "AMR_readU8 offset a = ucast (u8 a (unat (offset AND (word_of_nat (u8_length a) - 1))))"

definition AMR_readU16 :: "u32 \<Rightarrow> ArrayMemoryRegion \<Rightarrow> u32" where
  "AMR_readU16 offset0 a =
     (let offset = push_bit 1 (drop_bit 1 offset0);
          index = unat (drop_bit 1 offset AND (word_of_nat (u8_length a div 2) - 1))
      in u16_at a index)"

definition AMR_readU32 :: "u32 \<Rightarrow> ArrayMemoryRegion \<Rightarrow> u32" where
  "AMR_readU32 offset0 a =
     (let offset = push_bit 2 (drop_bit 2 offset0);
          index = unat (drop_bit 2 offset AND (word_of_nat (u8_length a div 4) - 1))
      in u32_at a index)"

definition AMR_writeU8 :: "u32 \<Rightarrow> u32 \<Rightarrow> ArrayMemoryRegion \<Rightarrow> ArrayMemoryRegion" where
  "AMR_writeU8 offset v a =
     (if \<not> writable a then a
      else a\<lparr> u8 := (u8 a)(unat (offset AND (word_of_nat (u8_length a) - 1)) := ucast (v AND 0xFF)) \<rparr>)"

definition AMR_writeU16 :: "u32 \<Rightarrow> u32 \<Rightarrow> ArrayMemoryRegion \<Rightarrow> ArrayMemoryRegion" where
  "AMR_writeU16 offset0 v0 a =
     (if \<not> writable a then a
      else (let offset = push_bit 1 (drop_bit 1 offset0);
                v = v0 AND 0xFFFF;
                index = unat (drop_bit 1 offset AND (word_of_nat (u8_length a div 2) - 1))
            in a\<lparr> u8 := (u8 a)(2 * index := ucast v, 2 * index + 1 := ucast (drop_bit 8 v)) \<rparr>))"

definition AMR_writeU32 :: "u32 \<Rightarrow> u32 \<Rightarrow> ArrayMemoryRegion \<Rightarrow> ArrayMemoryRegion" where
  "AMR_writeU32 offset0 v a =
     (if \<not> writable a then a
      else (let offset = push_bit 2 (drop_bit 2 offset0);
                index = unat (drop_bit 2 offset AND (word_of_nat (u8_length a div 4) - 1))
            in a\<lparr> u8 := (u8 a)(4 * index := ucast v, 4 * index + 1 := ucast (drop_bit 8 v),
                                 4 * index + 2 := ucast (drop_bit 16 v),
                                 4 * index + 3 := ucast (drop_bit 24 v)) \<rparr>))"

text \<open>
  \<open>load(data, offset)\<close> with a \<open>Uint8Array\<close>: \<open>this.u8.set(data, offset)\<close> copies the bytes,
  and throws a \<open>RangeError\<close> (\<open>None\<close>) when they do not fit.
\<close>

definition load :: "8 word list \<Rightarrow> nat \<Rightarrow> ArrayMemoryRegion \<Rightarrow> ArrayMemoryRegion option" where
  "load data offset a =
     (if offset + length data > u8_length a then None
      else Some (a\<lparr> u8 := (\<lambda>i. if offset \<le> i \<and> i < offset + length data
                                  then data ! (i - offset) else u8 a i) \<rparr>))"

section \<open>Memory interface unit (segmentedmemoryregion.js, class SegmentedMemoryRegion)\<close>

text \<open>
  256 slots, each empty (\<open>null\<close>) or holding a region. The regions the engine maps are
  backing arrays and the MMIO region. The per-segment access counters are left out.
\<close>

datatype 'p Region = ArrayRegion ArrayMemoryRegion | IORegion "'p IOMemoryRegion"

record 'p MIU =
  segments :: "nat \<Rightarrow> 'p Region option"

definition MIU_new :: "'p MIU" where
  "MIU_new = \<lparr> segments = (\<lambda>_. None) \<rparr>"

text \<open>\<open>setRegion(segment, region)\<close>: a segment outside 0..255 throws.\<close>

definition setRegion :: "int \<Rightarrow> 'p Region option \<Rightarrow> 'p MIU \<Rightarrow> 'p MIU option" where
  "setRegion segment region m =
     (if segment < 0 \<or> segment > 255 then None
      else Some (m\<lparr> segments := (segments m)(nat segment := region) \<rparr>))"

definition getSegment :: "u32 \<Rightarrow> nat" where
  "getSegment address = unat (drop_bit 24 address AND 0xFF)"

definition getOffset :: "u32 \<Rightarrow> u32" where
  "getOffset address = address AND 0xFFFFFF"

text \<open>
  The three read methods differ only in the region method they forward to, and so do the
  three write methods; \<open>region_read\<close> and \<open>region_write\<close> are that common body. A read of an
  unmapped segment returns 0; a write to one is dropped.
\<close>

definition region_read ::
  "(u32 \<Rightarrow> ArrayMemoryRegion \<Rightarrow> u32) \<Rightarrow> (u32 \<Rightarrow> 'p IOMemoryRegion \<Rightarrow> u32 \<times> 'p IOMemoryRegion)
     \<Rightarrow> u32 \<Rightarrow> 'p MIU \<Rightarrow> u32 \<times> 'p MIU" where
  "region_read rdA rdIO address m =
     (let segment = getSegment address; offset = getOffset address
      in case segments m segment of
           None \<Rightarrow> (0, m)
         | Some (ArrayRegion a) \<Rightarrow> (rdA offset a, m)
         | Some (IORegion io) \<Rightarrow>
             (let p = rdIO offset io
              in (fst p, m\<lparr> segments := (segments m)(segment \<mapsto> IORegion (snd p)) \<rparr>)))"

definition region_write ::
  "(u32 \<Rightarrow> u32 \<Rightarrow> ArrayMemoryRegion \<Rightarrow> ArrayMemoryRegion)
     \<Rightarrow> (u32 \<Rightarrow> u32 \<Rightarrow> 'p IOMemoryRegion \<Rightarrow> 'p IOMemoryRegion)
     \<Rightarrow> u32 \<Rightarrow> u32 \<Rightarrow> 'p MIU \<Rightarrow> 'p MIU" where
  "region_write wrA wrIO address v m =
     (let segment = getSegment address; offset = getOffset address
      in case segments m segment of
           None \<Rightarrow> m
         | Some (ArrayRegion a) \<Rightarrow>
             m\<lparr> segments := (segments m)(segment \<mapsto> ArrayRegion (wrA offset v a)) \<rparr>
         | Some (IORegion io) \<Rightarrow>
             m\<lparr> segments := (segments m)(segment \<mapsto> IORegion (wrIO offset v io)) \<rparr>)"

definition MIU_readU8 :: "u32 \<Rightarrow> 'p MIU \<Rightarrow> u32 \<times> 'p MIU" where
  "MIU_readU8 = region_read AMR_readU8 IO_readU8"

definition MIU_readU16 :: "u32 \<Rightarrow> 'p MIU \<Rightarrow> u32 \<times> 'p MIU" where
  "MIU_readU16 = region_read AMR_readU16 IO_readU16"

definition MIU_readU32 :: "u32 \<Rightarrow> 'p MIU \<Rightarrow> u32 \<times> 'p MIU" where
  "MIU_readU32 = region_read AMR_readU32 IO_readU32"

definition MIU_writeU8 :: "u32 \<Rightarrow> u32 \<Rightarrow> 'p MIU \<Rightarrow> 'p MIU" where
  "MIU_writeU8 = region_write AMR_writeU8 IO_writeU8"

definition MIU_writeU16 :: "u32 \<Rightarrow> u32 \<Rightarrow> 'p MIU \<Rightarrow> 'p MIU" where
  "MIU_writeU16 = region_write AMR_writeU16 IO_writeU16"

definition MIU_writeU32 :: "u32 \<Rightarrow> u32 \<Rightarrow> 'p MIU \<Rightarrow> 'p MIU" where
  "MIU_writeU32 = region_write AMR_writeU32 IO_writeU32"

text \<open>The six methods, as the interface the interpreter calls.\<close>

definition SegmentedMemoryRegion :: "('p MIU) MIU_ops" where
  "SegmentedMemoryRegion =
     \<lparr> miu_readU8 = MIU_readU8, miu_readU16 = MIU_readU16, miu_readU32 = MIU_readU32,
       miu_writeU8 = MIU_writeU8, miu_writeU16 = MIU_writeU16, miu_writeU32 = MIU_writeU32 \<rparr>"

section \<open>Interrupt controller (class InterruptController)\<close>

text \<open>
  The four registers are JavaScript numbers used only through 32-bit bitwise operators;
  the model keeps their 32-bit patterns. \<open>stats\<close> counts the triggers, the exception
  entries made (\<open>processed\<close>) and the triggers that made none (\<open>blocked\<close>).
\<close>

record InterruptController =
  INT_MASK :: u32
  INT_PRIO :: u32
  INT_STATUS :: u32
  INT_ACK :: u32
  triggered :: nat
  processed :: nat
  blocked :: nat

definition INTC_reset :: InterruptController where
  "INTC_reset = \<lparr> INT_MASK = 0, INT_PRIO = 0, INT_STATUS = 0, INT_ACK = 0,
                  triggered = 0, processed = 0, blocked = 0 \<rparr>"

text \<open>
  \<open>trigger(cpu, irqNumber)\<close>. The CPU is an argument (\<open>None\<close> for a null one); the
  controller keeps no reference to it. The result is the controller and the CPU after
  the call.
\<close>

definition trigger ::
  "'m CPU option \<Rightarrow> int \<Rightarrow> InterruptController \<Rightarrow> InterruptController \<times> 'm CPU option" where
  "trigger cpu irqNumber ic =
     (if irqNumber < 0 \<or> irqNumber > 31 then (ic, cpu)
      else
       (let ic1 = ic\<lparr> triggered := triggered ic + 1 \<rparr>;
            ic2 = ic1\<lparr> INT_STATUS := INT_STATUS ic1 OR push_bit (nat irqNumber) 1 \<rparr>;
            isEnabled = (INT_MASK ic2 AND push_bit (nat irqNumber) 1 \<noteq> 0)
        in case cpu of
             Some c \<Rightarrow>
               (if isEnabled
                then (ic2\<lparr> processed := processed ic2 + 1 \<rparr>, Some (exception (nat irqNumber) c))
                else (ic2\<lparr> blocked := blocked ic2 + 1 \<rparr>, cpu))
           | None \<Rightarrow> (ic2\<lparr> blocked := blocked ic2 + 1 \<rparr>, cpu)))"

definition INTC_readU32 :: "u32 \<Rightarrow> InterruptController \<Rightarrow> u32" where
  "INTC_readU32 address ic =
     (let offset = address AND 0xFFFF in
      if offset = 0x0000 then INT_MASK ic
      else if offset = 0x0004 then INT_PRIO ic
      else if offset = 0x0008 then INT_STATUS ic
      else if offset = 0x000C then 0
      else 0)"

definition INTC_writeU32 :: "u32 \<Rightarrow> u32 \<Rightarrow> InterruptController \<Rightarrow> InterruptController" where
  "INTC_writeU32 address v ic =
     (let offset = address AND 0xFFFF in
      if offset = 0x0000 then ic\<lparr> INT_MASK := v \<rparr>
      else if offset = 0x0004 then ic\<lparr> INT_PRIO := v \<rparr>
      else if offset = 0x0008 then ic
      else if offset = 0x000C then ic\<lparr> INT_STATUS := INT_STATUS ic AND NOT v \<rparr>
      else ic)"

definition enableIRQ :: "int \<Rightarrow> InterruptController \<Rightarrow> InterruptController" where
  "enableIRQ irqNumber ic =
     (if 0 \<le> irqNumber \<and> irqNumber < 32
      then ic\<lparr> INT_MASK := INT_MASK ic OR push_bit (nat irqNumber) 1 \<rparr> else ic)"

definition isIRQPending :: "int \<Rightarrow> InterruptController \<Rightarrow> bool" where
  "isIRQPending irqNumber ic =
     (if 0 \<le> irqNumber \<and> irqNumber < 32
      then drop_bit (nat irqNumber) (INT_STATUS ic) AND 1 = 1 else False)"

section \<open>Timer channel (class Timer)\<close>

text \<open>
  \<open>count\<close>, \<open>cmp\<close> and \<open>stat\<close> are 32-bit patterns. \<open>clockScale\<close> is the three-bit field
  \<open>(value >>> 5) & 0x07\<close> of the last control write (0 at construction), so that
  \<open>1 << clockScale\<close> is \<open>2 ^ clockScale\<close>. \<open>cyclesUntilTick\<close> accumulates the cycles fed to
  \<open>tick\<close>. The statistics count logical ticks, compare hits, overflows and the compare
  hits that called \<open>onCompare\<close>.
\<close>

record Timer =
  count :: u32
  ctrl :: u32
  cmp :: u32
  stat :: u32
  enabled :: bool
  countDown :: bool
  repeat :: bool
  irqEnabled :: bool
  extClock :: bool
  clockScale :: nat
  cyclesUntilTick :: nat
  ticks :: nat
  compares :: nat
  overflows :: nat
  interrupts :: nat

definition Timer_new :: Timer where
  "Timer_new = \<lparr> count = 0, ctrl = 0, cmp = 0xFFFFFFFF, stat = 0, enabled = False,
                 countDown = False, repeat = False, irqEnabled = False, extClock = False,
                 clockScale = 0, cyclesUntilTick = 0, ticks = 0, compares = 0, overflows = 0,
                 interrupts = 0 \<rparr>"

definition writeCtrl :: "u32 \<Rightarrow> Timer \<Rightarrow> Timer" where
  "writeCtrl v t = t\<lparr> ctrl := v,
       enabled := (v AND 0x01 \<noteq> 0), countDown := (v AND 0x02 \<noteq> 0),
       repeat := (v AND 0x04 \<noteq> 0), irqEnabled := (v AND 0x08 \<noteq> 0),
       extClock := (v AND 0x10 \<noteq> 0), clockScale := unat (drop_bit 5 v AND 0x07) \<rparr>"

definition readCtrl :: "Timer \<Rightarrow> u32" where
  "readCtrl t = (if enabled t then 0x01 else 0) OR (if countDown t then 0x02 else 0)
      OR (if repeat t then 0x04 else 0) OR (if irqEnabled t then 0x08 else 0)
      OR (if extClock t then 0x10 else 0) OR push_bit 5 (word_of_nat (clockScale t) AND 0x07)"

definition writeCount :: "u32 \<Rightarrow> Timer \<Rightarrow> Timer" where
  "writeCount v t = t\<lparr> count := v, cyclesUntilTick := 0 \<rparr>"

definition writeCompare :: "u32 \<Rightarrow> Timer \<Rightarrow> Timer" where
  "writeCompare v t = t\<lparr> cmp := v \<rparr>"

definition readStatus :: "Timer \<Rightarrow> u32" where
  "readStatus t = stat t"

definition writeStatus :: "u32 \<Rightarrow> Timer \<Rightarrow> Timer" where
  "writeStatus v t = (if v AND 0x80 \<noteq> 0 then t\<lparr> stat := stat t AND NOT 0x01 \<rparr> else t)"

text \<open>\<open>this.onCompare?.()\<close>: the callback, when there is one, acts on the world.\<close>

definition fire :: "('w \<Rightarrow> 'w) option \<Rightarrow> 'w \<Rightarrow> 'w" where
  "fire onCompare w = (case onCompare of Some f \<Rightarrow> f w | None \<Rightarrow> w)"

text \<open>
  One pass of the \<open>while\<close> loop of \<open>tick\<close>. The loop state is the timer, the world the
  \<open>onCompare\<close> callback acts on (the callback is \<open>None\<close> while it is null), and the local
  \<open>didCompare\<close>. \<open>k\<close> is the clock scale read before the loop. \<open>onOverflow\<close> only logs.
\<close>

definition tick_body :: "('w \<Rightarrow> 'w) option \<Rightarrow> nat \<Rightarrow> Timer \<times> 'w \<times> bool \<Rightarrow> Timer \<times> 'w \<times> bool" where
  "tick_body onCompare k st =
    (case st of (t, w, didCompare) \<Rightarrow>
      (let t1 = t\<lparr> cyclesUntilTick := cyclesUntilTick t - 2 ^ k, ticks := ticks t + 1 \<rparr>;
           t2 =
             (if countDown t1 then
                (if count t1 = 0 then
                   (let t' = t1\<lparr> stat := stat t1 OR 0x02, overflows := overflows t1 + 1 \<rparr>
                    in if repeat t' then t'\<lparr> count := cmp t' \<rparr> else t'\<lparr> enabled := False \<rparr>)
                 else t1\<lparr> count := count t1 - 1 \<rparr>)
              else
                (let t' = t1\<lparr> count := count t1 + 1 \<rparr>
                 in if count t' = 0
                    then t'\<lparr> stat := stat t' OR 0x02, overflows := overflows t' + 1 \<rparr>
                    else t'))
       in if count t2 = cmp t2 then
            (let t3 = t2\<lparr> stat := stat t2 OR 0x01, compares := compares t2 + 1 \<rparr>;
                 t4 = (if irqEnabled t3 then t3\<lparr> interrupts := interrupts t3 + 1 \<rparr> else t3);
                 w1 = (if irqEnabled t3 then fire onCompare w else w);
                 t5 = (if repeat t4 then t4\<lparr> count := 0 \<rparr> else t4\<lparr> enabled := False \<rparr>)
             in (t5, w1, True))
          else (t2, w, didCompare)))"

lemma tick_body_cycles:
  "cyclesUntilTick (fst (tick_body onCompare k (t, w, d))) = cyclesUntilTick t - 2 ^ k"
  by (simp add: tick_body_def Let_def)

function tick_loop :: "('w \<Rightarrow> 'w) option \<Rightarrow> nat \<Rightarrow> Timer \<times> 'w \<times> bool \<Rightarrow> Timer \<times> 'w \<times> bool" where
  "tick_loop onCompare k (t, w, d) =
     (if cyclesUntilTick t \<ge> 2 ^ k
      then tick_loop onCompare k (tick_body onCompare k (t, w, d))
      else (t, w, d))"
  by pat_completeness auto
termination
proof (relation "measure (\<lambda>(onCompare, k, st). cyclesUntilTick (fst st))")
  show "wf (measure (\<lambda>(onCompare :: ('w \<Rightarrow> 'w) option, k :: nat, st :: Timer \<times> 'w \<times> bool).
                       cyclesUntilTick (fst st)))"
    by simp
next
  fix onCompare :: "('w \<Rightarrow> 'w) option" and k :: nat and t :: Timer and w :: 'w and d :: bool
  assume "2 ^ k \<le> cyclesUntilTick t"
  moreover have "(0::nat) < 2 ^ k" by simp
  ultimately have "cyclesUntilTick t - 2 ^ k < cyclesUntilTick t" by arith
  then show "((onCompare, k, tick_body onCompare k (t, w, d)), (onCompare, k, (t, w, d)))
          \<in> measure (\<lambda>(onCompare, k, st). cyclesUntilTick (fst st))"
    by (simp add: tick_body_cycles)
qed

declare tick_loop.simps [simp del]

text \<open>
  \<open>tick(cycles)\<close>: the result is the returned boolean, the timer and the world. A disabled
  channel drops its accumulated cycles and returns false.
\<close>

definition tick :: "('w \<Rightarrow> 'w) option \<Rightarrow> nat \<Rightarrow> Timer \<times> 'w \<Rightarrow> bool \<times> Timer \<times> 'w" where
  "tick onCompare cycles0 tw =
     (case tw of (t, w) \<Rightarrow>
       if \<not> enabled t then (False, t\<lparr> cyclesUntilTick := 0 \<rparr>, w)
       else (let k = clockScale t;
                 t1 = t\<lparr> cyclesUntilTick := cyclesUntilTick t + cycles0 \<rparr>;
                 res = tick_loop onCompare k (t1, w, False)
             in case res of (t2, w2, didCompare) \<Rightarrow> (didCompare \<and> irqEnabled t2, t2, w2)))"

text \<open>Feeding the cycles in several calls of \<open>tick\<close>, as the engine does slice by slice.\<close>

fun tick_all :: "('w \<Rightarrow> 'w) option \<Rightarrow> nat list \<Rightarrow> Timer \<times> 'w \<Rightarrow> Timer \<times> 'w" where
  "tick_all onCompare [] tw = tw"
| "tick_all onCompare (n # ns) tw = tick_all onCompare ns (snd (tick onCompare n tw))"

text \<open>
  The state of an enabled count-up channel with interrupt enable, compare value \<open>c\<close> and
  scale \<open>k\<close> that has been fed \<open>m\<close> cycles since its count was 0 and has not reached the
  compare value.
\<close>

definition counting :: "u32 \<Rightarrow> nat \<Rightarrow> nat \<Rightarrow> Timer \<Rightarrow> bool" where
  "counting c k m t \<longleftrightarrow>
     enabled t \<and> \<not> countDown t \<and> irqEnabled t \<and> cmp t = c \<and> clockScale t = k
     \<and> cyclesUntilTick t < 2 ^ k \<and> unat (count t) * 2 ^ k + cyclesUntilTick t = m
     \<and> unat (count t) < unat c"

section \<open>UART (class UART): the receive side\<close>

text \<open>
  The registers are 32-bit patterns; \<open>rxQueue\<close> is the JavaScript array that
  \<open>receiveData\<close> pushes to. The callbacks \<open>onRXData\<close> and \<open>onTXData\<close> are null unless the
  host installs them and are left out, as is the debug logging.
\<close>

record UART =
  TX_BUF :: u32
  RX_BUF :: u32
  CONTROL :: u32
  STATUS :: u32
  BAUD :: u32
  rxQueue :: "u32 list"
  bytesReceived :: nat

definition STATUS_TX_EMPTY :: u32 where "STATUS_TX_EMPTY = 0x80"
definition STATUS_RX_READY :: u32 where "STATUS_RX_READY = 0x40"
definition STATUS_TX_IDLE :: u32 where "STATUS_TX_IDLE = 0x10"

definition UART_reset :: UART where
  "UART_reset = \<lparr> TX_BUF = 0, RX_BUF = 0, CONTROL = 0, STATUS = 0x0090, BAUD = 0,
                  rxQueue = [], bytesReceived = 0 \<rparr>"

text \<open>\<open>readU32(address)\<close>: the value returned and the UART after the read.\<close>

definition UART_readU32 :: "u32 \<Rightarrow> UART \<Rightarrow> u32 \<times> UART" where
  "UART_readU32 address u =
     (let offset = address AND 0xFFFF in
      if offset = 0x0000
      then (let data = RX_BUF u in (data, u\<lparr> STATUS := STATUS u AND NOT STATUS_RX_READY \<rparr>))
      else if offset = 0x0008 then (CONTROL u, u)
      else if offset = 0x000C then (STATUS u, u)
      else if offset = 0x0010 then (BAUD u, u)
      else (0, u))"

text \<open>\<open>receiveData(byte)\<close>.\<close>

definition receiveData :: "u32 \<Rightarrow> UART \<Rightarrow> UART" where
  "receiveData byte u =
     (let u1 = u\<lparr> rxQueue := rxQueue u @ [byte AND 0xFF] \<rparr>;
          u2 = u1\<lparr> bytesReceived := bytesReceived u1 + 1 \<rparr>;
          u3 = u2\<lparr> STATUS := STATUS u2 OR STATUS_RX_READY \<rparr>
      in u3\<lparr> RX_BUF := byte AND 0xFF \<rparr>)"

text \<open>\<open>receiveString(str)\<close>, on the character codes of the string.\<close>

fun receiveString :: "u32 list \<Rightarrow> UART \<Rightarrow> UART" where
  "receiveString [] u = u"
| "receiveString (c # cs) u = receiveString cs (receiveData c u)"

text \<open>\<open>getNextRXByte()\<close>: no register access calls it.\<close>

definition getNextRXByte :: "UART \<Rightarrow> u32 \<times> UART" where
  "getNextRXByte u =
     (case rxQueue u of
        b # bs \<Rightarrow> (b, u\<lparr> rxQueue := bs \<rparr>)
      | [] \<Rightarrow> (0, u\<lparr> STATUS := STATUS u AND NOT STATUS_RX_READY \<rparr>))"

section \<open>Engine (main.js, class HyperScanEngine): ROM loading\<close>

datatype EmulatorState = STOPPED | RUNNING | PAUSED | ERROR | LOADING

text \<open>
  \<open>cpu.miu\<close> and \<open>hw.miu\<close> are one object, and \<open>hw.flash\<close>, \<open>hw.dram\<close> and \<open>hw.io\<close> are the
  regions in its slots \<open>0x9E\<close>, \<open>0xA0\<close> and \<open>0x08\<close>: the model keeps the MIU once, inside
  the CPU record, and reaches the regions through its slots.
\<close>

record 'p HyperScanEngine =
  state :: EmulatorState
  cpu :: "'p MIU CPU"
  romLoaded :: bool
  fatalError :: "js_error option"
  cyclesExecuted :: nat

definition DRAM_SIZE :: nat where "DRAM_SIZE = 16 * 1024 * 1024"
definition FLASH_SIZE :: nat where "FLASH_SIZE = 8 * 1024 * 1024"
definition SEGMENT_DRAM :: nat where "SEGMENT_DRAM = 0xA0"
definition SEGMENT_IO :: nat where "SEGMENT_IO = 0x08"
definition SEGMENT_FLASH :: nat where "SEGMENT_FLASH = 0x9E"
definition BOOT_ADDRESS_DEFAULT :: u32 where "BOOT_ADDRESS_DEFAULT = 0x9E000000"
definition BOOT_ADDRESS_FROM_MAGIC :: u32 where "BOOT_ADDRESS_FROM_MAGIC = 0x9E000100"
definition BOOT_MAGIC :: u32 where "BOOT_MAGIC = 0x614D3832"
definition BOOT_MAGIC_OFFSET :: nat where "BOOT_MAGIC_OFFSET = 0x4E"
definition IRQ_TIMER :: int where "IRQ_TIMER = 5"

text \<open>
  \<open>setupHardware()\<close>: the CPU is reset and given a new MIU with new DRAM, I/O and flash
  regions. The two array regions are built with the platform's sizes, for which the
  constructor does not throw (\<open>ArrayMemoryRegion_new_platform\<close> below). \<open>io0\<close> is the new
  I/O region with the peripherals' handlers registered, as \<open>_setupPeripherals\<close> and
  \<open>_setupIOHandlers\<close> leave it; the peripheral classes are taken to be loaded, so that
  nothing here throws.
\<close>

definition setupHardware :: "'p IOMemoryRegion \<Rightarrow> 'p HyperScanEngine \<Rightarrow> 'p HyperScanEngine" where
  "setupHardware io0 e =
     (let m = \<lparr> segments = (\<lambda>_. None)(SEGMENT_DRAM \<mapsto> ArrayRegion (zeroed DRAM_SIZE),
                                         SEGMENT_IO \<mapsto> IORegion io0,
                                         SEGMENT_FLASH \<mapsto> ArrayRegion (zeroed FLASH_SIZE)) \<rparr>
      in e\<lparr> cpu := reset (Some m), cyclesExecuted := 0 \<rparr>)"

definition pause :: "'p HyperScanEngine \<Rightarrow> 'p HyperScanEngine" where
  "pause e = (if state e = RUNNING then e\<lparr> state := PAUSED \<rparr> else e)"

definition handleFatalError :: "js_error \<Rightarrow> 'p HyperScanEngine \<Rightarrow> 'p HyperScanEngine" where
  "handleFatalError err e = e\<lparr> state := ERROR, fatalError := Some err \<rparr>"

text \<open>\<open>hw.flash\<close>, and \<open>hw.flash.load(data, 0)\<close> seen through the MIU.\<close>

definition hw_flash :: "'p HyperScanEngine \<Rightarrow> ArrayMemoryRegion option" where
  "hw_flash e =
     (case miu (cpu e) of
        None \<Rightarrow> None
      | Some m \<Rightarrow> (case segments m SEGMENT_FLASH of
                     Some (ArrayRegion a) \<Rightarrow> Some a
                   | _ \<Rightarrow> None))"

definition flash_load :: "8 word list \<Rightarrow> 'p HyperScanEngine \<Rightarrow> 'p HyperScanEngine option" where
  "flash_load data e =
     (case miu (cpu e) of
        None \<Rightarrow> None
      | Some m \<Rightarrow>
         (case segments m SEGMENT_FLASH of
            Some (ArrayRegion a) \<Rightarrow>
              (case load data 0 a of
                 None \<Rightarrow> None
               | Some a' \<Rightarrow>
                   Some (e\<lparr> cpu := (cpu e)\<lparr> miu :=
                          Some (m\<lparr> segments := (segments m)(SEGMENT_FLASH \<mapsto> ArrayRegion a') \<rparr>) \<rparr> \<rparr>))
          | _ \<Rightarrow> None))"

text \<open>
  \<open>data[i]\<close> inside a bitwise expression: an index past the end gives \<open>undefined\<close>, which
  the bitwise operators take as 0.
\<close>

definition byte_at :: "8 word list \<Rightarrow> nat \<Rightarrow> u32" where
  "byte_at data i = (if i < length data then ucast (data ! i) else 0)"

text \<open>The byte swap in groups of four; a tail shorter than four bytes is copied.\<close>

fun swap32 :: "8 word list \<Rightarrow> 8 word list" where
  "swap32 (a # b # c # d # rest) = d # c # b # a # swap32 rest"
| "swap32 tail = tail"

text \<open>
  The entry PC \<open>loadROM\<close> selects: \<open>0x9E000100\<close> when the image is longer than
  \<open>0x4E + 4\<close> bytes and carries the big-endian magic \<open>aM82\<close> at \<open>0x4E\<close>, else \<open>0x9E000000\<close>.
\<close>

definition bootAddress :: "8 word list \<Rightarrow> u32" where
  "bootAddress data =
     (let magic = push_bit 24 (byte_at data (BOOT_MAGIC_OFFSET + 0))
                  OR push_bit 16 (byte_at data (BOOT_MAGIC_OFFSET + 1))
                  OR push_bit 8 (byte_at data (BOOT_MAGIC_OFFSET + 2))
                  OR byte_at data (BOOT_MAGIC_OFFSET + 3)
      in if length data > BOOT_MAGIC_OFFSET + 4 \<and> magic = BOOT_MAGIC
         then BOOT_ADDRESS_FROM_MAGIC else BOOT_ADDRESS_DEFAULT)"

text \<open>
  \<open>loadROM(file)\<close> on the bytes of the file. The checks of the video unit that follow
  \<open>setupHardware\<close> pass under the assumption above. An exception thrown inside the \<open>try\<close>
  block is caught and handed to \<open>handleFatalError\<close>. The log line of the first four
  bytes calls \<open>toString\<close> on each of them: for an image shorter than four bytes one of
  them is \<open>undefined\<close> and the call throws a \<open>TypeError\<close>, before anything is copied. The
  image is copied into flash before the entry PC is chosen and the entry opcode is
  looked at.
\<close>

definition loadROM :: "8 word list \<Rightarrow> 'p IOMemoryRegion \<Rightarrow> 'p HyperScanEngine \<Rightarrow> 'p HyperScanEngine" where
  "loadROM data0 io0 e0 =
    (let e1 = pause e0;
         e2 = e1\<lparr> state := LOADING \<rparr>;
         e3 = setupHardware io0 e2;
         byte0 = byte_at data0 0; byte1 = byte_at data0 1;
         byte2 = byte_at data0 2; byte3 = byte_at data0 3;
         insn_LE = push_bit 24 byte0 OR push_bit 16 byte1 OR push_bit 8 byte2 OR byte3;
         op_LE = drop_bit 27 insn_LE AND 0x1F;
         insn_BE = push_bit 24 byte3 OR push_bit 16 byte2 OR push_bit 8 byte1 OR byte0;
         op_BE = drop_bit 27 insn_BE AND 0x1F
     in if length data0 < 4 then handleFatalError TypeError e3
        else
         (let needsSwap = (op_LE > 0x1F \<and> op_BE \<le> 0x1F);
              data = (if needsSwap then swap32 data0 else data0)
          in case flash_load data e3 of
               None \<Rightarrow> handleFatalError RangeError e3
             | Some e4 \<Rightarrow>
                (let e5 = e4\<lparr> romLoaded := True \<rparr>;
                     bootAddr = bootAddress data;
                     e6 = e5\<lparr> cpu := (cpu e5)\<lparr> pc := bootAddr \<rparr> \<rparr>
                 in case miu (cpu e6) of
                      None \<Rightarrow> handleFatalError TypeError e6
                    | Some m \<Rightarrow>
                       (let f = MIU_readU32 bootAddr m;
                            finalInsn = fst f;
                            e7 = e6\<lparr> cpu := (cpu e6)\<lparr> miu := Some (snd f) \<rparr> \<rparr>;
                            finalOP = drop_bit 27 finalInsn AND 0x1F
                        in if finalOP > 0x1F
                           then handleFatalError (InvalidOpcode finalOP) e7
                           else e7\<lparr> state := PAUSED \<rparr>))))"

text \<open>
  The engine's \<open>timer.onInterrupt\<close> callback: with an interrupt controller and a CPU
  present it triggers the timer line.
\<close>

definition timer_onInterrupt ::
  "InterruptController \<times> 'm CPU option \<Rightarrow> InterruptController \<times> 'm CPU option" where
  "timer_onInterrupt w =
     (case w of (ic, c) \<Rightarrow> (if c = None then (ic, c) else trigger c IRQ_TIMER ic))"

text \<open>The engine as its constructor leaves it: stopped, a CPU without MIU, no ROM.\<close>

definition HyperScanEngine_new :: "'p HyperScanEngine" where
  "HyperScanEngine_new = \<lparr> state = STOPPED, cpu = reset None, romLoaded = False,
                           fatalError = None, cyclesExecuted = 0 \<rparr>"

text \<open>
  The engine's \<open>step()\<close>: one CPU step, and four cycles charged to the engine's own
  counter \<open>clock.cyclesExecuted\<close> when it succeeds.
\<close>

definition engine_step :: "'p HyperScanEngine \<Rightarrow> 'p HyperScanEngine" where
  "engine_step e0 =
     (if \<not> romLoaded e0 then e0
      else (let e1 = pause e0;
                res = step SegmentedMemoryRegion (cpu e1);
                e2 = e1\<lparr> cpu := snd res \<rparr>
            in if \<not> fst res then e2
               else e2\<lparr> cyclesExecuted := cyclesExecuted e2 + 4 \<rparr>))"

subsection \<open>Scenario inputs\<close>

text \<open>
  A machine booted from a ROM image: a new engine, a 256 KiB I/O region without
  peripherals, and \<open>loadROM\<close>.
\<close>

definition boot :: "8 word list \<Rightarrow> unit HyperScanEngine" where
  "boot rom = loadROM rom (IOMemoryRegion_new (256 * 1024) ()) HyperScanEngine_new"

text \<open>The word \<open>0x00000000\<close> (\<open>nop\<close>).\<close>

definition rom_nop :: "8 word list" where
  "rom_nop = [0x00, 0x00, 0x00, 0x00]"

text \<open>
  The word \<open>0x30000210\<close>: opcode \<open>0x06\<close> with the sub-opcode field \<open>(insn >>> 2) & 0xFF\<close>
  equal to \<open>0x84\<close>, which the disassembler prints as \<open>rte\<close>.
\<close>

definition rom_rte :: "8 word list" where
  "rom_rte = [0x10, 0x02, 0x00, 0x30]"

text \<open>
  A CPU inside an exception handler whose next instruction is that word: booted from
  \<open>rom_rte\<close>, with the return PC \<open>0x9E000040\<close> in cr5 and the saved flags (all five set)
  in cr1. Its own flags are clear.
\<close>

definition in_handler :: "unit MIU CPU" where
  "in_handler = (cpu (boot rom_rte))\<lparr> cr := (\<lambda>_. 0)(1 := 0xF0000001, 5 := 0x9E000040) \<rparr>"

text \<open>
  The words \<open>0x03C00018\<close> (\<open>cmp r0, r0\<close>: SP-form, function \<open>0x0C\<close>, condition \<open>0xF\<close> in the
  rD field) and \<open>0x00400050\<close> (\<open>mfsr r1, sr0\<close>: SP-form, function \<open>0x28\<close>, rD = 1, rB = 0).
\<close>

definition rom_cmp_mfsr :: "8 word list" where
  "rom_cmp_mfsr = [0x18, 0x00, 0xC0, 0x03, 0x50, 0x00, 0x40, 0x00]"

text \<open>The CPU after two steps of the machine booted from \<open>rom_cmp_mfsr\<close>.\<close>

definition after_cmp_mfsr :: "unit MIU CPU" where
  "after_cmp_mfsr =
     snd (step SegmentedMemoryRegion (snd (step SegmentedMemoryRegion (cpu (boot rom_cmp_mfsr)))))"

text \<open>
  A timer channel configured through its registers: COUNT \<open>= 0\<close>, CMP \<open>= 100\<close>, CTRL
  \<open>= 0x49\<close> (enable, interrupt enable, scale 2, counting up, no repeat); and the world of
  its interrupt callback: a controller with line 5 unmasked and a reset CPU.
\<close>

definition timer_scenario :: Timer where
  "timer_scenario = writeCtrl 0x49 (writeCompare 100 (writeCount 0 Timer_new))"

definition world_scenario :: "InterruptController \<times> unit MIU CPU option" where
  "world_scenario = (INTC_reset\<lparr> INT_MASK := 0x20 \<rparr>, Some (reset None))"
section \<open>Exception entry and return\<close>

lemma flag_and_1: "flag b AND 1 = flag b"
  by (simp add: flag_def)

lemma packed_bits:
  fixes n z c v t :: bool
  defines "w \<equiv> push_bit 31 (flag n) OR push_bit 30 (flag z) OR push_bit 29 (flag c)
                OR push_bit 28 (flag v) OR flag t"
  shows "bit w 31 = n" "bit w 30 = z" "bit w 29 = c" "bit w 28 = v" "bit w 0 = t"
    "w AND 0x0FFFFFFE = 0"
  unfolding w_def flag_def by (cases n; cases z; cases c; cases v; cases t; simp)+

lemma drop_bit_and_1: "(drop_bit k (w :: u32) AND 1 = 1) = bit w k"
  by (simp add: bit_iff_and_drop_bit_eq_1)



lemma and_1_eq_1: "((w :: u32) AND 1 = 1) = bit w 0"
  using drop_bit_and_1 [of 0 w] by simp

lemma exception_cr1:
  "cr (exception c s) 1 = push_bit 31 (flag (N s)) OR push_bit 30 (flag (Z s))
      OR push_bit 29 (flag (C s)) OR push_bit 28 (flag (V s)) OR flag (T s)"
  by (simp add: exception_def packSR0_def Let_def flag_and_1)

lemma exception_fields:
  "pc (exception c s) = cr s 3 + word_of_nat (4 * c)"
  "cr (exception c s) 5 = pc s"
  "sr (exception c s) 0 = cr (exception c s) 1"
  "cr (exception c s) 0 = cr s 0 AND NOT 1"
  by (simp_all add: exception_def packSR0_def Let_def mult.commute)

lemma rte_fields:
  "pc (rte s) = cr s 5" "N (rte s) = bit (cr s 1) 31" "Z (rte s) = bit (cr s 1) 30"
  "C (rte s) = bit (cr s 1) 29" "V (rte s) = bit (cr s 1) 28" "T (rte s) = bit (cr s 1) 0"
  "sr (rte s) 0 = cr s 1"
  by (simp_all add: rte_def unpackSR0_def Let_def and_1_eq_1 bit_simps)

text \<open>
  Claim C2. For every CPU state \<open>s\<close> and every cause \<open>c\<close>, after exception entry with cause
  \<open>c\<close>: the PC is \<open>cr3 + 4c\<close> (in 32-bit arithmetic), cr5 is the PC before entry, sr0 and
  cr1 are equal and hold the flags before entry packed as N at bit 31, Z at 30, C at 29,
  V at 28 and T at bit 0 with every other bit clear, and bit 0 of cr0 is clear. An \<open>rte\<close>
  in any state \<open>h\<close> sets the PC to cr5 and each of the five flags to its bit of cr1,
  whatever the PC and the flags of \<open>h\<close> were, and leaves sr0 equal to cr1. So when the
  handler entered from \<open>s\<close> has changed the PC and all five flags and then returns, the PC
  and the flags are those of \<open>s\<close> again.
\<close>

theorem exception_entry_then_rte:
  fixes s h :: "'m CPU" and c :: nat and n z k v t :: bool and p :: u32
  defines "e \<equiv> exception c s"
  defines "e' \<equiv> (exception c s)\<lparr> N := n, Z := z, C := k, V := v, T := t, pc := p \<rparr>"
  shows "pc e = cr s 3 + word_of_nat (4 * c)
       \<and> cr e 5 = pc s
       \<and> sr e 0 = cr e 1
       \<and> bit (cr e 1) 31 = N s \<and> bit (cr e 1) 30 = Z s \<and> bit (cr e 1) 29 = C s
       \<and> bit (cr e 1) 28 = V s \<and> bit (cr e 1) 0 = T s \<and> cr e 1 AND 0x0FFFFFFE = 0
       \<and> \<not> bit (cr e 0) 0
       \<and> pc (rte h) = cr h 5
       \<and> N (rte h) = bit (cr h 1) 31 \<and> Z (rte h) = bit (cr h 1) 30
       \<and> C (rte h) = bit (cr h 1) 29 \<and> V (rte h) = bit (cr h 1) 28
       \<and> T (rte h) = bit (cr h 1) 0
       \<and> sr (rte h) 0 = cr h 1
       \<and> pc (rte e) = pc s
       \<and> N (rte e) = N s \<and> Z (rte e) = Z s \<and> C (rte e) = C s
       \<and> V (rte e) = V s \<and> T (rte e) = T s
       \<and> pc (rte e') = pc s
       \<and> N (rte e') = N s \<and> Z (rte e') = Z s \<and> C (rte e') = C s
       \<and> V (rte e') = V s \<and> T (rte e') = T s"
proof -
  note pb = packed_bits [of "N s" "Z s" "C s" "V s" "T s", folded exception_cr1 [of c s],
      unfolded One_nat_def]
  have c0: "\<not> bit (cr e 0) 0"
    by (simp add: e_def exception_fields bit_simps)
  have entry: "pc e = cr s 3 + word_of_nat (4 * c) \<and> cr e 5 = pc s \<and> sr e 0 = cr e 1
       \<and> bit (cr e 1) 31 = N s \<and> bit (cr e 1) 30 = Z s \<and> bit (cr e 1) 29 = C s
       \<and> bit (cr e 1) 28 = V s \<and> bit (cr e 1) 0 = T s \<and> cr e 1 AND 0x0FFFFFFE = 0"
    unfolding e_def by (simp add: exception_fields(1-3) pb)
  have anywhere: "pc (rte h) = cr h 5
       \<and> N (rte h) = bit (cr h 1) 31 \<and> Z (rte h) = bit (cr h 1) 30
       \<and> C (rte h) = bit (cr h 1) 29 \<and> V (rte h) = bit (cr h 1) 28
       \<and> T (rte h) = bit (cr h 1) 0 \<and> sr (rte h) 0 = cr h 1"
    by (simp add: rte_fields)
  have ret: "pc (rte e) = pc s
       \<and> N (rte e) = N s \<and> Z (rte e) = Z s \<and> C (rte e) = C s
       \<and> V (rte e) = V s \<and> T (rte e) = T s"
    unfolding e_def by (simp add: rte_fields exception_fields(2) pb)
  have kept: "cr e' = cr (exception c s)"
    by (simp add: e'_def)
  have ret': "pc (rte e') = pc s
       \<and> N (rte e') = N s \<and> Z (rte e') = Z s \<and> C (rte e') = C s
       \<and> V (rte e') = V s \<and> T (rte e') = T s"
    by (simp add: rte_fields kept exception_fields(2) pb)
  from entry c0 anywhere ret ret' show ?thesis
    by simp
qed

section \<open>The interpreter step\<close>

subsection \<open>No form executor touches the counters\<close>



lemma counters_upd [simp]:
  "counters (s\<lparr> r := x1 \<rparr>) = counters s"
  "counters (s\<lparr> cr := x2 \<rparr>) = counters s"
  "counters (s\<lparr> sr := x3 \<rparr>) = counters s"
  "counters (s\<lparr> pc := x4 \<rparr>) = counters s"
  "counters (s\<lparr> N := b1 \<rparr>) = counters s"
  "counters (s\<lparr> Z := b2 \<rparr>) = counters s"
  "counters (s\<lparr> C := b3 \<rparr>) = counters s"
  "counters (s\<lparr> V := b4 \<rparr>) = counters s"
  "counters (s\<lparr> T := b5 \<rparr>) = counters s"
  "counters (s\<lparr> CEL := x5 \<rparr>) = counters s"
  "counters (s\<lparr> CEH := x6 \<rparr>) = counters s"
  "counters (s\<lparr> miu := x7 \<rparr>) = counters s"
  by (simp_all add: counters_def)

lemma counters_basic [simp]:
  "counters (updateBasicFlags res s) = counters s"
  "counters (packSR0 s) = counters s"
  "counters (unpackSR0 s) = counters s"
  by (simp_all add: updateBasicFlags_def packSR0_def unpackSR0_def Let_def)

lemma counters_exception [simp]: "counters (exception c s) = counters s"
  by (simp add: exception_def Let_def)

lemma counters_rte [simp]: "counters (rte s) = counters s"
  by (simp add: rte_def Let_def)

lemma counters_alu [simp]:
  "counters (snd (add a b u s)) = counters s"
  "counters (snd (addc a b u s)) = counters s"
  "counters (snd (sub a b u s)) = counters s"
  "counters (snd (subc a b u s)) = counters s"
  "counters (snd (neg a u s)) = counters s"
  "counters (snd (bitOp a b ty u s)) = counters s"
  "counters (snd (sll a b u s)) = counters s"
  "counters (snd (srl a b u s)) = counters s"
  "counters (snd (sra a b u s)) = counters s"
  "counters (snd (ror a b u s)) = counters s"
  "counters (snd (rol a b u s)) = counters s"
  "counters (snd (rorc a u s)) = counters s"
  "counters (snd (rolc a u s)) = counters s"
  "counters (snd (extsb a u s)) = counters s"
  "counters (snd (extsh a u s)) = counters s"
  "counters (snd (extzb a u s)) = counters s"
  "counters (snd (extzh a u s)) = counters s"
  "counters (snd (bitclr a b u s)) = counters s"
  "counters (snd (bitset a b u s)) = counters s"
  "counters (snd (bittgl a b u s)) = counters s"
  "counters (bittst a b s) = counters s"
  by (simp_all add: add_def addc_def sub_def subc_def neg_def bitOp_def sll_def srl_def
      sra_def ror_def rol_def rorc_def rolc_def extsb_def extsh_def extzb_def extzh_def
      bitclr_def bitset_def bittgl_def bittst_def Let_def)

lemma counters_misc [simp]:
  "counters (execMul a b s) = counters s"
  "counters (execMulu a b s) = counters s"
  "counters (execDiv a b s) = counters s"
  "counters (execDivu a b s) = counters s"
  "counters (moveFromCE d x s) = counters s"
  "counters (moveToCE d x s) = counters s"
  "counters (setR d p) = counters (snd p)"
  "counters (loadR rd ext d addr s) = counters s"
  "counters (storeM wr addr v s) = counters s"
  by (simp_all add: execMul_def execMulu_def execDiv_def execDivu_def moveFromCE_def
      moveToCE_def setR_def loadR_def storeM_def Let_def split: option.splits)

lemma counters_execSpForm: "counters (snd (execSpForm ops insn s)) = counters s"
  by (simp add: execSpForm_def Let_def)

lemma counters_execIForm: "counters (snd (execIForm insn s)) = counters s"
  by (simp add: execIForm_def Let_def)

lemma counters_execJForm: "counters (snd (execJForm insn s)) = counters s"
  by (simp add: execJForm_def Let_def)

lemma counters_execBForm: "counters (snd (execBForm insn s)) = counters s"
  by (simp add: execBForm_def Let_def)

lemma counters_execRixForm: "counters (snd (execRixForm ops insn s)) = counters s"
  by (simp add: execRixForm_def Let_def)

lemma counters_execMemoryForm: "counters (snd (execMemoryForm ops insn s)) = counters s"
  by (simp add: execMemoryForm_def Let_def)

lemma counters_exec16: "counters (snd (exec16 ops insn s)) = counters s"
  by (simp add: exec16_def Let_def)


lemma counters_dispatch: "counters (snd (dispatch ops encoded s0)) = counters s0"
  by (simp add: dispatch_def Let_def counters_execSpForm counters_execIForm
      counters_execJForm counters_execBForm counters_execRixForm counters_execMemoryForm
      counters_exec16)

lemma step_running:
  assumes "\<not> halted s" and "miu s = Some m"
  shows "step ops s =
     (let f = miu_readU32 ops (pc s) m;
          res = dispatch ops (fst f) (s\<lparr> miu := Some (snd f) \<rparr>);
          s2 = (if fst res \<noteq> 0 then (snd res)\<lparr> pc := pc (snd res) + word_of_nat (fst res) \<rparr>
                else snd res)
      in (True, s2\<lparr> cycles := cycles s2 + 1, instructions := instructions s2 + 1 \<rparr>))"
  using assms by (simp add: step_def Let_def)

lemma step_counters:
  assumes "\<not> halted s" and "miu s = Some m"
  shows "fst (step ops s) \<and> cycles (snd (step ops s)) = cycles s + 1
         \<and> instructions (snd (step ops s)) = instructions s + 1"
proof -
  define f where "f = miu_readU32 ops (pc s) m"
  define s0 where "s0 = s\<lparr> miu := Some (snd f) \<rparr>"
  have "counters (snd (dispatch ops (fst f) s0)) = counters s"
    by (simp add: counters_dispatch s0_def)
  then show ?thesis
    by (simp add: step_running [OF assms] Let_def f_def [symmetric] s0_def [symmetric]
        counters_def)
qed

lemma dispatch_nop: "dispatch ops 0 s0 = (4, s0)"
  by (simp add: dispatch_def execSpForm_def Let_def)

lemma step_nop:
  assumes "\<not> halted s" and "miu s = Some m" and "fst (miu_readU32 ops (pc s) m) = 0"
  shows "snd (step ops s) = s\<lparr> miu := Some (snd (miu_readU32 ops (pc s) m)), pc := pc s + 4,
            cycles := cycles s + 1, instructions := instructions s + 1 \<rparr>"
  using assms by (simp add: step_running [OF assms(1,2)] Let_def dispatch_nop)

subsection \<open>ROM loading\<close>

text \<open>The platform's region sizes are multiples of four below \<open>2^31\<close>: nothing throws.\<close>

lemma alignedSize_platform:
  "alignedSize DRAM_SIZE = 16777216" "alignedSize FLASH_SIZE = 8388608"
  by (simp_all add: alignedSize_def DRAM_SIZE_def FLASH_SIZE_def)

lemma ArrayMemoryRegion_new_platform:
  "ArrayMemoryRegion_new DRAM_SIZE = Inr (zeroed DRAM_SIZE)"
  "ArrayMemoryRegion_new FLASH_SIZE = Inr (zeroed FLASH_SIZE)"
  by (simp_all add: ArrayMemoryRegion_new_def alignedSize_platform)
    (simp_all add: DRAM_SIZE_def FLASH_SIZE_def)

text \<open>The constructor at the edges of 32-bit arithmetic.\<close>

lemma ArrayMemoryRegion_new_examples:
  "ArrayMemoryRegion_new 0 = Inl TypeError"
  "ArrayMemoryRegion_new 5 = Inr \<lparr> u8 = (\<lambda>_. 0), u8_length = 8, writable = True \<rparr>"
  "ArrayMemoryRegion_new (2 ^ 32 + 5) = Inr \<lparr> u8 = (\<lambda>_. 0), u8_length = 8, writable = True \<rparr>"
  "ArrayMemoryRegion_new (2 ^ 31 - 1) = Inl RangeError"
  by (simp_all add: ArrayMemoryRegion_new_def alignedSize_def zeroed_def)

lemma zeroed_flash:
  "u8_length (zeroed FLASH_SIZE) = FLASH_SIZE" "u8 (zeroed sizeBytes) i = 0"
  by (simp_all add: zeroed_def alignedSize_platform) (simp add: FLASH_SIZE_def)

lemma and_1F_not_gt: "\<not> ((w :: u32) AND 0x1F > 0x1F)"
  using word_and_le1 [of w "0x1F"] by (simp add: not_less)

lemma getSegment_bootAddress: "getSegment (bootAddress data) = SEGMENT_FLASH"
  by (simp add: bootAddress_def Let_def getSegment_def BOOT_ADDRESS_DEFAULT_def
      BOOT_ADDRESS_FROM_MAGIC_def SEGMENT_FLASH_def)

text \<open>The MIU after \<open>setupHardware\<close> and \<open>hw.flash.load(data, 0)\<close>.\<close>

lemma flash_load_setup:
  assumes "length data \<le> FLASH_SIZE"
  shows "flash_load data (setupHardware io0 e) =
     Some (e\<lparr> cpu := reset (Some \<lparr> segments = (\<lambda>_. None)(
                 SEGMENT_DRAM \<mapsto> ArrayRegion (zeroed DRAM_SIZE),
                 SEGMENT_IO \<mapsto> IORegion io0,
                 SEGMENT_FLASH \<mapsto> ArrayRegion ((zeroed FLASH_SIZE)
                     \<lparr> u8 := (\<lambda>i. if i < length data then data ! i else 0) \<rparr>)) \<rparr>),
             cyclesExecuted := 0 \<rparr>)"
proof -
  note len = zeroed_flash(1)
  have ne: "SEGMENT_FLASH \<noteq> SEGMENT_IO" "SEGMENT_FLASH \<noteq> SEGMENT_DRAM"
    by (simp_all add: SEGMENT_FLASH_def SEGMENT_IO_def SEGMENT_DRAM_def)
  note z = zeroed_flash(2)
  have f: "(\<lambda>i. if i < length data then data ! (i - 0) else u8 (zeroed FLASH_SIZE) i)
         = (\<lambda>i. if i < length data then data ! i else 0)"
    by (rule ext) (simp add: z)
  have ld: "load data 0 (zeroed FLASH_SIZE) =
      Some ((zeroed FLASH_SIZE)\<lparr> u8 := (\<lambda>i. if i < length data then data ! i else 0) \<rparr>)"
    using assms by (simp add: load_def len f)
  show ?thesis
    by (simp add: flash_load_def setupHardware_def Let_def reset_def ld ne)
qed

text \<open>
  Every image of at least four bytes that fits the flash region is committed and leaves
  the engine paused: the opcode compared with \<open>0x1F\<close> has been masked with \<open>0x1F\<close>.
\<close>

lemma loadROM_fits:
  assumes "4 \<le> length data" and "length data \<le> FLASH_SIZE"
  shows "loadROM data io0 e0 =
      e0\<lparr> state := PAUSED, romLoaded := True, cyclesExecuted := 0,
          cpu := (reset (Some \<lparr> segments = (\<lambda>_. None)(
                     SEGMENT_DRAM \<mapsto> ArrayRegion (zeroed DRAM_SIZE),
                     SEGMENT_IO \<mapsto> IORegion io0,
                     SEGMENT_FLASH \<mapsto> ArrayRegion ((zeroed FLASH_SIZE)
                         \<lparr> u8 := (\<lambda>i. if i < length data then data ! i else 0) \<rparr>)) \<rparr>))
                  \<lparr> pc := bootAddress data \<rparr> \<rparr>"
proof -
  have rd: "MIU_readU32 (bootAddress data) m = (AMR_readU32 (getOffset (bootAddress data)) a, m)"
    if "segments m SEGMENT_FLASH = Some (ArrayRegion a)" for m :: "'a MIU" and a
    using that by (simp add: MIU_readU32_def region_read_def Let_def getSegment_bootAddress)
  have l4: "\<not> length data < 4" using assms(1) by simp
  show ?thesis
    unfolding loadROM_def Let_def
    apply (simp only: and_1F_not_gt l4 simp_thms if_False flash_load_setup [OF assms(2)] option.case)
    apply (simp add: reset_def rd and_1F_not_gt pause_def)
    done
qed

text \<open>
  The two ways the load fails. An image shorter than four bytes, or one longer than the
  flash region, leaves the engine in \<open>ERROR\<close> with the new, empty flash region that
  \<open>setupHardware\<close> made and \<open>romLoaded\<close> as it was.
\<close>

lemma loadROM_short:
  assumes "length data < 4"
  shows "loadROM data io0 e0 =
      (setupHardware io0 e0)\<lparr> state := ERROR, fatalError := Some TypeError \<rparr>"
  using assms by (simp add: loadROM_def Let_def handleFatalError_def setupHardware_def pause_def)

lemma loadROM_too_long:
  assumes "FLASH_SIZE < length data"
  shows "loadROM data io0 e0 =
      (setupHardware io0 e0)\<lparr> state := ERROR, fatalError := Some RangeError \<rparr>"
proof -
  have l4: "\<not> length data < 4" using assms by (simp add: FLASH_SIZE_def)
  have ne: "SEGMENT_FLASH \<noteq> SEGMENT_IO" "SEGMENT_FLASH \<noteq> SEGMENT_DRAM"
    by (simp_all add: SEGMENT_FLASH_def SEGMENT_IO_def SEGMENT_DRAM_def)
  have ld: "load data 0 (zeroed FLASH_SIZE) = None"
    using assms by (simp add: load_def zeroed_flash)
  have fl: "flash_load data (setupHardware io0 e) = None" for e :: "'a HyperScanEngine"
    by (simp add: flash_load_def setupHardware_def Let_def reset_def ld ne)
  show ?thesis
    unfolding loadROM_def Let_def
    apply (simp only: and_1F_not_gt l4 simp_thms if_False fl option.case)
    apply (simp add: handleFatalError_def setupHardware_def pause_def)
    done
qed

text \<open>On both failing paths the flash region is the empty one and \<open>romLoaded\<close> is untouched.\<close>

lemma loadROM_failure_flash:
  assumes "length data < 4 \<or> FLASH_SIZE < length data"
  shows "state (loadROM data io0 e0) = ERROR"
    and "hw_flash (loadROM data io0 e0) = Some (zeroed FLASH_SIZE)"
    and "romLoaded (loadROM data io0 e0) = romLoaded e0"
proof -
  have ne: "SEGMENT_FLASH \<noteq> SEGMENT_IO" "SEGMENT_FLASH \<noteq> SEGMENT_DRAM"
    by (simp_all add: SEGMENT_FLASH_def SEGMENT_IO_def SEGMENT_DRAM_def)
  have h: "hw_flash ((setupHardware io0 e)\<lparr> state := ERROR, fatalError := x \<rparr>)
      = Some (zeroed FLASH_SIZE)" for e :: "'a HyperScanEngine" and x
    by (simp add: hw_flash_def setupHardware_def Let_def reset_def ne)
  have r: "romLoaded ((setupHardware io0 e)\<lparr> state := ERROR, fatalError := x \<rparr>) = romLoaded e"
    for e :: "'a HyperScanEngine" and x
    by (simp add: setupHardware_def Let_def)
  from assms show "state (loadROM data io0 e0) = ERROR"
    by (auto simp add: loadROM_short loadROM_too_long)
  from assms show "hw_flash (loadROM data io0 e0) = Some (zeroed FLASH_SIZE)"
    by (auto simp add: loadROM_short loadROM_too_long h)
  from assms show "romLoaded (loadROM data io0 e0) = romLoaded e0"
    by (auto simp add: loadROM_short loadROM_too_long r)
qed

subsection \<open>The booted machine\<close>

lemma bootAddress_short: "length data \<le> 82 \<Longrightarrow> bootAddress data = 0x9E000000"
  by (simp add: bootAddress_def Let_def BOOT_MAGIC_OFFSET_def BOOT_ADDRESS_DEFAULT_def)

lemma boot_cpu:
  assumes "4 \<le> length rom" and "length rom \<le> 82"
  shows "cpu (boot rom) =
     (reset (Some \<lparr> segments = (\<lambda>_. None)(
                     SEGMENT_DRAM \<mapsto> ArrayRegion (zeroed DRAM_SIZE),
                     SEGMENT_IO \<mapsto> IORegion (IOMemoryRegion_new (256 * 1024) ()),
                     SEGMENT_FLASH \<mapsto> ArrayRegion ((zeroed FLASH_SIZE)
                         \<lparr> u8 := (\<lambda>i. if i < length rom then rom ! i else 0) \<rparr>)) \<rparr>))
       \<lparr> pc := 0x9E000000 \<rparr>"
    and "state (boot rom) = PAUSED" and "romLoaded (boot rom)"
proof -
  have "length rom \<le> FLASH_SIZE" using assms(2) by (simp add: FLASH_SIZE_def)
  note l = loadROM_fits [OF assms(1) this]
  show "cpu (boot rom) =
     (reset (Some \<lparr> segments = (\<lambda>_. None)(
                     SEGMENT_DRAM \<mapsto> ArrayRegion (zeroed DRAM_SIZE),
                     SEGMENT_IO \<mapsto> IORegion (IOMemoryRegion_new (256 * 1024) ()),
                     SEGMENT_FLASH \<mapsto> ArrayRegion ((zeroed FLASH_SIZE)
                         \<lparr> u8 := (\<lambda>i. if i < length rom then rom ! i else 0) \<rparr>)) \<rparr>))
       \<lparr> pc := 0x9E000000 \<rparr>"
    and "state (boot rom) = PAUSED" and "romLoaded (boot rom)"
    by (simp_all add: boot_def l bootAddress_short [OF assms(2)])
qed

text \<open>Word fetches from the 8 MiB flash region through the MIU.\<close>

lemma fetch_flash:
  assumes "segments m SEGMENT_FLASH = Some (ArrayRegion a)" and "u8_length a = FLASH_SIZE"
  shows "miu_readU32 SegmentedMemoryRegion 0x9E000000 m = (u32_at a 0, m)"
    and "miu_readU32 SegmentedMemoryRegion 0x9E000004 m = (u32_at a 1, m)"
  using assms
  by (simp_all add: SegmentedMemoryRegion_def MIU_readU32_def region_read_def Let_def
      getSegment_def getOffset_def SEGMENT_FLASH_def AMR_readU32_def FLASH_SIZE_def)

lemma u8_length_image:
  "u8_length ((zeroed FLASH_SIZE)\<lparr> u8 := f \<rparr>) = FLASH_SIZE"
  by (simp add: zeroed_flash)

lemma boot_fetch:
  assumes "4 \<le> length rom" and "length rom \<le> 82"
  shows "miu (cpu (boot rom)) \<noteq> None"
    and "miu_readU32 SegmentedMemoryRegion 0x9E000000 (the (miu (cpu (boot rom)))) =
      (u32_at ((zeroed FLASH_SIZE)\<lparr> u8 := (\<lambda>i. if i < length rom then rom ! i else 0) \<rparr>) 0,
       the (miu (cpu (boot rom))))"
    and "miu_readU32 SegmentedMemoryRegion 0x9E000004 (the (miu (cpu (boot rom)))) =
      (u32_at ((zeroed FLASH_SIZE)\<lparr> u8 := (\<lambda>i. if i < length rom then rom ! i else 0) \<rparr>) 1,
       the (miu (cpu (boot rom))))"
proof -
  have seg: "segments (the (miu (cpu (boot rom)))) SEGMENT_FLASH =
      Some (ArrayRegion ((zeroed FLASH_SIZE)\<lparr> u8 := (\<lambda>i. if i < length rom then rom ! i else 0) \<rparr>))"
    by (simp add: boot_cpu(1) [OF assms] reset_def)
  show "miu (cpu (boot rom)) \<noteq> None"
    by (simp add: boot_cpu(1) [OF assms] reset_def)
  show "miu_readU32 SegmentedMemoryRegion 0x9E000000 (the (miu (cpu (boot rom)))) =
      (u32_at ((zeroed FLASH_SIZE)\<lparr> u8 := (\<lambda>i. if i < length rom then rom ! i else 0) \<rparr>) 0,
       the (miu (cpu (boot rom))))"
    by (rule fetch_flash(1) [OF seg u8_length_image])
  show "miu_readU32 SegmentedMemoryRegion 0x9E000004 (the (miu (cpu (boot rom)))) =
      (u32_at ((zeroed FLASH_SIZE)\<lparr> u8 := (\<lambda>i. if i < length rom then rom ! i else 0) \<rparr>) 1,
       the (miu (cpu (boot rom))))"
    by (rule fetch_flash(2) [OF seg u8_length_image])
qed

lemma image_words:
  "u32_at ((zeroed FLASH_SIZE)\<lparr> u8 := (\<lambda>i. if i < length rom_nop then rom_nop ! i else 0) \<rparr>) 0 = 0"
  "u32_at ((zeroed FLASH_SIZE)\<lparr> u8 := (\<lambda>i. if i < length rom_rte then rom_rte ! i else 0) \<rparr>) 0
     = 0x30000210"
  "u32_at ((zeroed FLASH_SIZE)\<lparr> u8 := (\<lambda>i. if i < length rom_cmp_mfsr then rom_cmp_mfsr ! i else 0) \<rparr>) 0
     = 0x03C00018"
  "u32_at ((zeroed FLASH_SIZE)\<lparr> u8 := (\<lambda>i. if i < length rom_cmp_mfsr then rom_cmp_mfsr ! i else 0) \<rparr>) 1
     = 0x00400050"
  by (simp_all add: u32_at_def rom_nop_def rom_rte_def rom_cmp_mfsr_def)

lemma boot_running:
  assumes "4 \<le> length rom" and "length rom \<le> 82"
  shows "\<not> halted (cpu (boot rom))" and "miu (cpu (boot rom)) = Some (the (miu (cpu (boot rom))))"
    and "pc (cpu (boot rom)) = 0x9E000000" and "cycles (cpu (boot rom)) = 0"
    and "instructions (cpu (boot rom)) = 0"
    and "\<not> N (cpu (boot rom))" and "\<not> Z (cpu (boot rom))" and "\<not> C (cpu (boot rom))"
    and "\<not> V (cpu (boot rom))" and "\<not> T (cpu (boot rom))"
    and "r (cpu (boot rom)) = (\<lambda>_. 0)" and "sr (cpu (boot rom)) = (\<lambda>_. 0)"
    and "cr (cpu (boot rom)) = (\<lambda>_. 0)"
  by (simp_all add: boot_cpu(1) [OF assms] reset_def)

lemma dispatch_op06:
  assumes "drop_bit 27 encoded AND 0x1F = 0x06"
  shows "dispatch ops encoded s0 = (4, s0)"
  using assms by (simp add: dispatch_def Let_def)

lemma step_op06:
  assumes "\<not> halted s" and "miu s = Some m"
    and "drop_bit 27 (fst (miu_readU32 ops (pc s) m)) AND 0x1F = 0x06"
  shows "step ops s = (True, s\<lparr> miu := Some (snd (miu_readU32 ops (pc s) m)), pc := pc s + 4,
            cycles := cycles s + 1, instructions := instructions s + 1 \<rparr>)"
  by (simp add: step_running [OF assms(1,2)] Let_def dispatch_op06 [OF assms(3)])

text \<open>
  Claim C1, as amended. For every instruction executed successfully (the CPU is not
  halted and has an MIU), \<open>step\<close> returns true and increments the CPU cycle counter by
  one, and the instruction counter by one; and when the fetched word is \<open>0x00000000\<close>
  (\<open>nop\<close>) the PC advances by 4 and the flags N, Z, C, V, T are unchanged.
\<close>

theorem step_counts_one_cycle:
  assumes "\<not> halted s" and "miu s = Some m"
  shows "fst (step ops s)
       \<and> cycles (snd (step ops s)) = cycles s + 1
       \<and> instructions (snd (step ops s)) = instructions s + 1
       \<and> (fst (miu_readU32 ops (pc s) m) = 0 \<longrightarrow>
            pc (snd (step ops s)) = pc s + 4
            \<and> N (snd (step ops s)) = N s \<and> Z (snd (step ops s)) = Z s
            \<and> C (snd (step ops s)) = C s \<and> V (snd (step ops s)) = V s
            \<and> T (snd (step ops s)) = T s)"
proof -
  have "pc (snd (step ops s)) = pc s + 4
            \<and> N (snd (step ops s)) = N s \<and> Z (snd (step ops s)) = Z s
            \<and> C (snd (step ops s)) = C s \<and> V (snd (step ops s)) = V s
            \<and> T (snd (step ops s)) = T s"
    if "fst (miu_readU32 ops (pc s) m) = 0"
    by (simp add: step_nop [OF assms that])
  then show ?thesis
    using step_counters [OF assms, of ops] by blast
qed

text \<open>
  Scenario S1 on the code: booted with the word \<open>0x00000000\<close> at \<open>0x9E000000\<close>, one step
  leaves the PC at \<open>0x9E000004\<close>, the cycle counter at 1 and the flags clear as before.
\<close>

theorem step_counts_one_cycle_witness:
  "\<not> halted (cpu (boot rom_nop))
   \<and> miu (cpu (boot rom_nop)) = Some (the (miu (cpu (boot rom_nop))))
   \<and> pc (cpu (boot rom_nop)) = 0x9E000000
   \<and> fst (miu_readU32 SegmentedMemoryRegion 0x9E000000 (the (miu (cpu (boot rom_nop))))) = 0
   \<and> fst (step SegmentedMemoryRegion (cpu (boot rom_nop)))
   \<and> pc (snd (step SegmentedMemoryRegion (cpu (boot rom_nop)))) = 0x9E000004
   \<and> cycles (snd (step SegmentedMemoryRegion (cpu (boot rom_nop)))) = 1
   \<and> instructions (snd (step SegmentedMemoryRegion (cpu (boot rom_nop)))) = 1
   \<and> \<not> N (snd (step SegmentedMemoryRegion (cpu (boot rom_nop))))
   \<and> \<not> Z (snd (step SegmentedMemoryRegion (cpu (boot rom_nop))))
   \<and> \<not> C (snd (step SegmentedMemoryRegion (cpu (boot rom_nop))))
   \<and> \<not> V (snd (step SegmentedMemoryRegion (cpu (boot rom_nop))))
   \<and> \<not> T (snd (step SegmentedMemoryRegion (cpu (boot rom_nop))))"
proof -
  have len4: "4 \<le> length rom_nop" by (simp add: rom_nop_def)
  have len: "length rom_nop \<le> 82" by (simp add: rom_nop_def)
  note b = boot_running [OF len4 len]
  have f: "fst (miu_readU32 SegmentedMemoryRegion (pc (cpu (boot rom_nop)))
                  (the (miu (cpu (boot rom_nop))))) = 0"
    by (simp add: b(3) boot_fetch(2) [OF len4 len] image_words)
  show ?thesis
    using step_counts_one_cycle [OF b(1) b(2), of SegmentedMemoryRegion] f b
    by simp
qed

text \<open>
  Claim C1 as stated fails: in scenario S1 the step succeeds and the CPU cycle counter,
  0 before, is not 4 after.
\<close>

theorem step_cycles_counterexample:
  "fst (step SegmentedMemoryRegion (cpu (boot rom_nop)))
   \<and> cycles (cpu (boot rom_nop)) = 0
   \<and> cycles (snd (step SegmentedMemoryRegion (cpu (boot rom_nop)))) \<noteq> 4"
proof -
  have len4: "4 \<le> length rom_nop" by (simp add: rom_nop_def)
  have len: "length rom_nop \<le> 82" by (simp add: rom_nop_def)
  note b = boot_running [OF len4 len]
  show ?thesis
    using step_counters [OF b(1) b(2), of SegmentedMemoryRegion] b(4) by simp
qed

text \<open>
  The four units of the specification are charged by the engine to its own counter
  \<open>clock.cyclesExecuted\<close>, next to the one cycle the CPU counts.
\<close>

lemma engine_step_charges_four:
  assumes "romLoaded e" and "\<not> halted (cpu e)" and "miu (cpu e) = Some m"
  shows "cyclesExecuted (engine_step e) = cyclesExecuted e + 4
       \<and> cycles (cpu (engine_step e)) = cycles (cpu e) + 1"
proof -
  have "cpu (pause e) = cpu e" by (simp add: pause_def)
  then show ?thesis
    using assms step_counters [of "cpu e" m SegmentedMemoryRegion]
    by (simp add: engine_step_def Let_def) (simp add: pause_def)
qed

text \<open>
  Claim C10. If the CPU is halted or has no MIU attached, \<open>step\<close> returns false and
  leaves the whole CPU state unchanged: PC, general, control and system registers,
  flags, CEL and CEH, and the cycle and instruction counters.
\<close>

theorem step_refuses_when_halted_or_without_miu:
  assumes "halted s \<or> miu s = None"
  shows "step ops s = (False, s)"
  using assms by (auto simp add: step_def)

theorem step_refuses_witness:
  "halted (halt (cpu (boot rom_nop)))
   \<and> step SegmentedMemoryRegion (halt (cpu (boot rom_nop))) = (False, halt (cpu (boot rom_nop)))
   \<and> miu (reset None :: unit MIU CPU) = None
   \<and> step SegmentedMemoryRegion (reset None :: unit MIU CPU) = (False, reset None)"
  using step_refuses_when_halted_or_without_miu [of "halt (cpu (boot rom_nop))" SegmentedMemoryRegion]
    step_refuses_when_halted_or_without_miu [of "reset None :: unit MIU CPU" SegmentedMemoryRegion]
  by (simp add: halt_def reset_def)

text \<open>
  Claim C6, evaluated on the code at a failing input. The CPU \<open>in_handler\<close> fetches
  \<open>0x30000210\<close>, opcode \<open>0x06\<close> with sub-opcode \<open>0x84\<close>, with cr5 \<open>= 0x9E000040\<close> and
  cr1 \<open>= 0xF0000001\<close>. The step succeeds, the PC becomes \<open>0x9E000004\<close>, the flags stay
  clear and no register changes, whereas \<open>rte\<close> would set the PC to \<open>0x9E000040\<close> and all
  five flags. By \<open>step_op06\<close> the same holds for every word of opcode \<open>0x06\<close>: neither
  \<open>mfcr\<close> nor \<open>mtcr\<close> nor the return from exception is executed.
\<close>

theorem cr_form_rte_not_executed:
  "fst (miu_readU32 SegmentedMemoryRegion (pc in_handler) (the (miu in_handler))) = 0x30000210
   \<and> drop_bit 27 (0x30000210 :: u32) AND 0x1F = 0x06
   \<and> drop_bit 2 (0x30000210 :: u32) AND 0xFF = 0x84
   \<and> cr in_handler 5 = 0x9E000040 \<and> cr in_handler 1 = 0xF0000001
   \<and> fst (step SegmentedMemoryRegion in_handler)
   \<and> pc (snd (step SegmentedMemoryRegion in_handler)) = 0x9E000004
   \<and> \<not> N (snd (step SegmentedMemoryRegion in_handler))
   \<and> \<not> Z (snd (step SegmentedMemoryRegion in_handler))
   \<and> \<not> C (snd (step SegmentedMemoryRegion in_handler))
   \<and> \<not> V (snd (step SegmentedMemoryRegion in_handler))
   \<and> \<not> T (snd (step SegmentedMemoryRegion in_handler))
   \<and> r (snd (step SegmentedMemoryRegion in_handler)) = r in_handler
   \<and> cr (snd (step SegmentedMemoryRegion in_handler)) = cr in_handler
   \<and> pc (rte in_handler) = 0x9E000040
   \<and> N (rte in_handler) \<and> Z (rte in_handler) \<and> C (rte in_handler)
   \<and> V (rte in_handler) \<and> T (rte in_handler)"
proof -
  have len4: "4 \<le> length rom_rte" by (simp add: rom_rte_def)
  have len: "length rom_rte \<le> 82" by (simp add: rom_rte_def)
  note b = boot_running [OF len4 len]
  have h: "\<not> halted in_handler" "miu in_handler = Some (the (miu (cpu (boot rom_rte))))"
    "pc in_handler = 0x9E000000"
    using b by (simp_all add: in_handler_def)
  have f: "miu_readU32 SegmentedMemoryRegion (pc in_handler) (the (miu (cpu (boot rom_rte))))
           = (0x30000210, the (miu (cpu (boot rom_rte))))"
    by (simp add: h(3) boot_fetch(2) [OF len4 len] image_words)
  have op: "drop_bit 27 (fst (miu_readU32 SegmentedMemoryRegion (pc in_handler)
              (the (miu (cpu (boot rom_rte)))))) AND 0x1F = 0x06"
    by (simp add: f)
  note st = step_op06 [OF h(1) h(2) op]
  have "cr in_handler 5 = 0x9E000040 \<and> cr in_handler 1 = 0xF0000001"
    by (simp add: in_handler_def)
  moreover have "pc (rte in_handler) = 0x9E000040
     \<and> N (rte in_handler) \<and> Z (rte in_handler) \<and> C (rte in_handler)
     \<and> V (rte in_handler) \<and> T (rte in_handler)"
    by (simp add: rte_fields in_handler_def bit_simps) 
  moreover have "\<not> N in_handler \<and> \<not> Z in_handler \<and> \<not> C in_handler \<and> \<not> V in_handler
     \<and> \<not> T in_handler"
    using b by (simp add: in_handler_def)
  ultimately show ?thesis
    by (simp add: st h boot_fetch(2) [OF len4 len] image_words)
qed

lemma step_cmp:
  "snd (step SegmentedMemoryRegion (cpu (boot rom_cmp_mfsr))) =
     (cpu (boot rom_cmp_mfsr))\<lparr> pc := 0x9E000004, Z := True, C := True, T := True,
        cycles := 1, instructions := 1 \<rparr>"
proof -
  have len4: "4 \<le> length rom_cmp_mfsr" by (simp add: rom_cmp_mfsr_def)
  have len: "length rom_cmp_mfsr \<le> 82" by (simp add: rom_cmp_mfsr_def)
  note b = boot_running [OF len4 len]
  have f: "miu_readU32 SegmentedMemoryRegion (pc (cpu (boot rom_cmp_mfsr)))
             (the (miu (cpu (boot rom_cmp_mfsr))))
           = (0x03C00018, the (miu (cpu (boot rom_cmp_mfsr))))"
    by (simp add: b(3) boot_fetch(2) [OF len4 len] image_words)
  have d: "dispatch SegmentedMemoryRegion 0x03C00018 s0 =
      (4, (snd (sub (r s0 0) (r s0 0) True s0))
            \<lparr> T := conditional 0xF (snd (sub (r s0 0) (r s0 0) True s0)) \<rparr>)"
    for s0 :: "unit MIU CPU"
    by (simp add: dispatch_def execSpForm_def Let_def)
  show ?thesis
    apply (simp add: step_running [OF b(1) b(2)] f Let_def d)
    apply (simp add: sub_def updateBasicFlags_def conditional_def Let_def b(11))
    apply (simp add: boot_cpu(1) [OF len4 len] reset_def)
    done
qed


lemma step_mfsr:
  "after_cmp_mfsr =
     (cpu (boot rom_cmp_mfsr))\<lparr> pc := 0x9E000008, Z := True, C := True, T := True,
        cycles := 2, instructions := 2 \<rparr>"
proof -
  have len4: "4 \<le> length rom_cmp_mfsr" by (simp add: rom_cmp_mfsr_def)
  have len: "length rom_cmp_mfsr \<le> 82" by (simp add: rom_cmp_mfsr_def)
  note b = boot_running [OF len4 len]
  define s1 where "s1 = (cpu (boot rom_cmp_mfsr))\<lparr> pc := 0x9E000004, Z := True, C := True,
        T := True, cycles := 1, instructions := 1 \<rparr>"
  have h: "\<not> halted s1" "miu s1 = Some (the (miu (cpu (boot rom_cmp_mfsr))))"
    using b(1,2) by (simp_all add: s1_def)
  have f: "miu_readU32 SegmentedMemoryRegion (pc s1) (the (miu (cpu (boot rom_cmp_mfsr))))
           = (0x00400050, the (miu (cpu (boot rom_cmp_mfsr))))"
    using boot_fetch(3) [OF len4 len] image_words(4) by (simp add: s1_def)
  have d: "dispatch SegmentedMemoryRegion 0x00400050 s0 = (4, s0\<lparr> r := (r s0)(1 := sr s0 0) \<rparr>)"
    for s0 :: "unit MIU CPU"
    by (simp add: dispatch_def execSpForm_def Let_def)
  have "snd (step SegmentedMemoryRegion s1) =
     (cpu (boot rom_cmp_mfsr))\<lparr> pc := 0x9E000008, Z := True, C := True, T := True,
        cycles := 2, instructions := 2 \<rparr>"
    apply (simp add: step_running [OF h] f Let_def d)
    apply (simp add: s1_def b(11,12))
    apply (simp add: boot_cpu(1) [OF len4 len] reset_def fun_eq_iff)
    done
  then show ?thesis
    by (simp add: after_cmp_mfsr_def step_cmp s1_def)
qed

text \<open>
  Claim C9, evaluated on the code at a failing input. After \<open>cmp r0, r0\<close> and
  \<open>mfsr r1, sr0\<close> from boot, the flags are Z = C = T = 1 and N = V = 0, whose packed form
  is \<open>0x60000001\<close>; yet r1, the word \<open>mfsr\<close> read from sr0, is 0, and so are the stored
  sr0 and the result of \<open>getSystemRegister(0)\<close>. The stored sr0 is not the packed
  mirror of the flags in this reachable state, and reading it does not pack them.
\<close>

theorem mfsr_sr0_reads_stale_word:
  "Z after_cmp_mfsr \<and> C after_cmp_mfsr \<and> T after_cmp_mfsr
   \<and> \<not> N after_cmp_mfsr \<and> \<not> V after_cmp_mfsr
   \<and> sr (packSR0 after_cmp_mfsr) 0 = 0x60000001
   \<and> r after_cmp_mfsr 1 = 0
   \<and> sr after_cmp_mfsr 0 = 0
   \<and> getSystemRegister 0 after_cmp_mfsr = 0"
proof -
  have len4: "4 \<le> length rom_cmp_mfsr" by (simp add: rom_cmp_mfsr_def)
  have len: "length rom_cmp_mfsr \<le> 82" by (simp add: rom_cmp_mfsr_def)
  note b = boot_running [OF len4 len]
  show ?thesis
    by (simp add: step_mfsr b packSR0_def flag_def getSystemRegister_def)
qed

lemma unpackSR0_flags:
  "N (unpackSR0 s) = bit (sr s 0) 31" "Z (unpackSR0 s) = bit (sr s 0) 30"
  "C (unpackSR0 s) = bit (sr s 0) 29" "V (unpackSR0 s) = bit (sr s 0) 28"
  "T (unpackSR0 s) = bit (sr s 0) 0"
  by (simp_all add: unpackSR0_def Let_def and_1_eq_1 bit_simps)

text \<open>The write direction holds: both ways of writing sr0 unpack the written word.\<close>

lemma setSystemRegister_0_unpacks:
  "setSystemRegister 0 v s = unpackSR0 (s\<lparr> sr := (sr s)(0 := v) \<rparr>)"
  by (simp add: setSystemRegister_def Let_def)

lemma mtsr_sr0_unpacks:
  assumes "drop_bit 1 insn AND 0x3F = 0x29" and "drop_bit 12 insn AND 0x1F = 0"
  shows "execSpForm ops insn s =
     (4, unpackSR0 (s\<lparr> sr := (sr s)(0 := r s (unat (drop_bit 17 insn AND 0x1F))) \<rparr>))"
  using assms by (simp add: execSpForm_def Let_def)

text \<open>The read direction copies the stored word, whatever the flags are.\<close>

lemma mfsr_copies_stored_word:
  assumes "drop_bit 1 insn AND 0x3F = 0x28"
  shows "execSpForm ops insn s =
     (4, s\<lparr> r := (r s)(unat (drop_bit 22 insn AND 0x1F) := sr s (unat (drop_bit 12 insn AND 0x1F))) \<rparr>)"
  using assms by (simp add: execSpForm_def Let_def)

section \<open>MMIO region: byte and halfword writes\<close>

lemma mask_consts: "(3 :: u32) = mask 2" "(0xFF :: u32) = mask 8" "(0xFFFF :: u32) = mask 16"
  by (simp_all add: mask_eq_exp_minus_1)

lemma drop_bit_2_aligned: "drop_bit 2 ((offset :: u32) AND NOT 3) = drop_bit 2 offset"
  unfolding mask_consts by (rule bit_word_eqI) (auto simp add: bit_simps dest: bit_imp_le_length)

lemma wordOffset_aligned: "wordOffset io (offset AND NOT 3) = wordOffset io offset"
  by (simp only: wordOffset_def drop_bit_2_aligned)

lemma wordOffset_aligned_minus: "wordOffset io (offset AND - 4) = wordOffset io offset"
  using wordOffset_aligned [of io offset] by simp

lemma wordOffset_same_size: "size_io io' = size_io io \<Longrightarrow> wordOffset io' = wordOffset io"
  by (simp add: wordOffset_def fun_eq_iff)

lemma callRead_keeps:
  "handlers (snd (callRead h w io)) = handlers io"
  "size_io (snd (callRead h w io)) = size_io io"
  "registers (snd (callRead h w io)) = registers io"
  "handlerCalls (snd (callRead h w io)) = handlerCalls io"
  "writes32 (snd (callRead h w io)) = writes32 io"
  by (simp_all add: callRead_def Let_def split: option.splits)

lemma mergeByte_bits:
  assumes "i < 32"
  shows "bit (mergeByte offset old v) i
       = (if unat (offset AND 3) * 8 \<le> i \<and> i < unat (offset AND 3) * 8 + 8
          then bit v (i - unat (offset AND 3) * 8) else bit old i)"
  unfolding mergeByte_def Let_def mask_consts using assms by (auto simp add: bit_simps)

lemma mergeHalf_bits:
  assumes "i < 32"
  shows "bit (mergeHalf offset old v) i
       = (if unat (offset AND 2) * 8 \<le> i \<and> i < unat (offset AND 2) * 8 + 16
          then bit v (i - unat (offset AND 2) * 8) else bit old i)"
  unfolding mergeHalf_def Let_def mask_consts using assms by (auto simp add: bit_simps)

text \<open>A word access at the aligned offset of a handled word is one call of the handler.\<close>

lemma IO_readU32_handled:
  assumes "handlers io (wordOffset io offset) = Some h"
  shows "IO_readU32 (offset AND - 4) io =
     callRead h (wordOffset io offset)
       (io\<lparr> reads32 := reads32 io + 1, handlerCalls := handlerCalls io + 1 \<rparr>)"
proof -
  have w: "wordOffset (io\<lparr> reads32 := reads32 io + 1 \<rparr>) = wordOffset io"
    by (rule wordOffset_same_size) simp
  show ?thesis
    using assms by (simp add: IO_readU32_def Let_def wordOffset_aligned_minus w)
qed

lemma IO_writeU32_handled:
  assumes "handlers io (wordOffset io offset) = Some h"
  shows "IO_writeU32 (offset AND - 4) x io =
     callWrite h (wordOffset io offset) x
       (io\<lparr> writes32 := writes32 io + 1, handlerCalls := handlerCalls io + 1 \<rparr>)"
proof -
  have w: "wordOffset (io\<lparr> writes32 := writes32 io + 1 \<rparr>) = wordOffset io"
    by (rule wordOffset_same_size) simp
  show ?thesis
    using assms by (simp add: IO_writeU32_def Let_def wordOffset_aligned_minus w)
qed

lemma IO_writeU8_handled:
  assumes "handlers io (wordOffset io offset) = Some h"
  defines "rd \<equiv> callRead h (wordOffset io offset)
                  (io\<lparr> reads32 := reads32 io + 1, handlerCalls := handlerCalls io + 1 \<rparr>)"
  shows "IO_writeU8 offset v io =
     (callWrite h (wordOffset io offset) (mergeByte offset (fst rd) v)
        ((snd rd)\<lparr> writes32 := writes32 io + 1, handlerCalls := handlerCalls io + 2 \<rparr>))
       \<lparr> writes8 := writes8 io + 1 \<rparr>"
    and "IO_writeU16 offset v io =
     (callWrite h (wordOffset io offset) (mergeHalf offset (fst rd) v)
        ((snd rd)\<lparr> writes32 := writes32 io + 1, handlerCalls := handlerCalls io + 2 \<rparr>))
       \<lparr> writes16 := writes16 io + 1 \<rparr>"
proof -
  have r: "IO_readU32 (offset AND - 4) io = rd"
    unfolding rd_def by (rule IO_readU32_handled [OF assms(1)])
  have ws: "wordOffset (snd rd) = wordOffset io"
    by (rule wordOffset_same_size) (simp add: rd_def callRead_keeps)
  have h: "handlers (snd rd) (wordOffset (snd rd) offset) = Some h"
    using assms(1) by (simp add: ws) (simp add: rd_def callRead_keeps)
  have k: "handlerCalls (snd rd) = handlerCalls io + 1" "writes32 (snd rd) = writes32 io"
    by (simp_all add: rd_def callRead_keeps)
  have w8: "writes8 (callWrite h w x io') = writes8 io'"
    "writes16 (callWrite h w x io') = writes16 io'" for w x and io' :: "'a IOMemoryRegion"
    by (simp_all add: callWrite_def setCell_def split: option.splits)
  have r8: "writes8 (snd rd) = writes8 io" "writes16 (snd rd) = writes16 io"
    by (simp_all add: rd_def callRead_def Let_def split: option.splits)
  show "IO_writeU8 offset v io =
     (callWrite h (wordOffset io offset) (mergeByte offset (fst rd) v)
        ((snd rd)\<lparr> writes32 := writes32 io + 1, handlerCalls := handlerCalls io + 2 \<rparr>))
       \<lparr> writes8 := writes8 io + 1 \<rparr>"
    by (simp add: IO_writeU8_def Let_def r IO_writeU32_handled [OF h] ws k w8 r8)
  show "IO_writeU16 offset v io =
     (callWrite h (wordOffset io offset) (mergeHalf offset (fst rd) v)
        ((snd rd)\<lparr> writes32 := writes32 io + 1, handlerCalls := handlerCalls io + 2 \<rparr>))
       \<lparr> writes16 := writes16 io + 1 \<rparr>"
    by (simp add: IO_writeU16_def Let_def r IO_writeU32_handled [OF h] ws k w8 r8)
qed

text \<open>
  Claim C8. For every byte write into the MMIO region at an offset whose word has a
  registered handler \<open>h\<close>, the region reads the containing word with one call of the
  handler's read closure and then makes one call of its write closure, on the state the
  read left, with the merged word; the two handler calls are counted. Each bit of the
  merged word is the bit of the written value inside the addressed byte and the bit of
  the old word elsewhere. Halfword writes do the same with the addressed halfword. When
  the handler was registered with a read closure \<open>rfn\<close> and a write closure \<open>wfn\<close> on a
  peripheral, the peripheral after the write is \<open>wfn\<close> applied once to the merged word and
  to the peripheral that \<open>rfn\<close> left, and the region's own cells are not written.
\<close>

theorem io_subword_write_is_read_modify_write:
  fixes io :: "'p IOMemoryRegion" and h :: "'p Handler"
  assumes "handlers io (wordOffset io offset) = Some h"
  defines "rd \<equiv> callRead h (wordOffset io offset)
                  (io\<lparr> reads32 := reads32 io + 1, handlerCalls := handlerCalls io + 1 \<rparr>)"
  shows "IO_writeU8 offset v io =
           (callWrite h (wordOffset io offset) (mergeByte offset (fst rd) v)
              ((snd rd)\<lparr> writes32 := writes32 io + 1, handlerCalls := handlerCalls io + 2 \<rparr>))
             \<lparr> writes8 := writes8 io + 1 \<rparr>
       \<and> IO_writeU16 offset v io =
           (callWrite h (wordOffset io offset) (mergeHalf offset (fst rd) v)
              ((snd rd)\<lparr> writes32 := writes32 io + 1, handlerCalls := handlerCalls io + 2 \<rparr>))
             \<lparr> writes16 := writes16 io + 1 \<rparr>
       \<and> (\<forall>i<32. bit (mergeByte offset old v) i
             = (if unat (offset AND 3) * 8 \<le> i \<and> i < unat (offset AND 3) * 8 + 8
                then bit v (i - unat (offset AND 3) * 8) else bit old i))
       \<and> (\<forall>i<32. bit (mergeHalf offset old v) i
             = (if unat (offset AND 2) * 8 \<le> i \<and> i < unat (offset AND 2) * 8 + 16
                then bit v (i - unat (offset AND 2) * 8) else bit old i))
       \<and> (\<forall>rfn wfn. readFn h = Some rfn \<and> writeFn h = Some wfn \<longrightarrow>
             periph (IO_writeU8 offset v io)
               = wfn (mergeByte offset (fst (rfn (periph io))) v) (snd (rfn (periph io)))
             \<and> periph (IO_writeU16 offset v io)
               = wfn (mergeHalf offset (fst (rfn (periph io))) v) (snd (rfn (periph io)))
             \<and> handlerCalls (IO_writeU8 offset v io) = handlerCalls io + 2
             \<and> registers (IO_writeU8 offset v io) = registers io
             \<and> registers (IO_writeU16 offset v io) = registers io)"
proof -
  note e = IO_writeU8_handled [OF assms(1), of v, folded rd_def]
  have "periph (IO_writeU8 offset v io)
               = wfn (mergeByte offset (fst (rfn (periph io))) v) (snd (rfn (periph io)))
             \<and> periph (IO_writeU16 offset v io)
               = wfn (mergeHalf offset (fst (rfn (periph io))) v) (snd (rfn (periph io)))
             \<and> handlerCalls (IO_writeU8 offset v io) = handlerCalls io + 2
             \<and> registers (IO_writeU8 offset v io) = registers io
             \<and> registers (IO_writeU16 offset v io) = registers io"
    if "readFn h = Some rfn" and "writeFn h = Some wfn" for rfn wfn
    using that by (simp add: e) (simp add: rd_def callRead_def callWrite_def Let_def)
  then show ?thesis
    using e by (simp add: mergeByte_bits mergeHalf_bits)
qed

text \<open>
  On the logging region: the handler at \<open>0x10\<close> reads \<open>0x11223344\<close>; a byte write of \<open>0xAB\<close>
  at \<open>0x11\<close> calls the write closure once with \<open>0x1122AB44\<close>, a halfword write of \<open>0xBEEF\<close>
  at \<open>0x12\<close> once with \<open>0xBEEF3344\<close>.
\<close>

theorem io_subword_write_witness:
  "handlers logging_io (wordOffset logging_io 0x11)
     = Some \<lparr> readFn = Some (\<lambda>p. (0x11223344, p)), writeFn = Some (\<lambda>w p. p @ [w]) \<rparr>
   \<and> periph logging_io = []
   \<and> periph (IO_writeU8 0x11 0xAB logging_io) = [0x1122AB44]
   \<and> handlerCalls (IO_writeU8 0x11 0xAB logging_io) = handlerCalls logging_io + 2
   \<and> handlers logging_io (wordOffset logging_io 0x12)
     = Some \<lparr> readFn = Some (\<lambda>p. (0x11223344, p)), writeFn = Some (\<lambda>w p. p @ [w]) \<rparr>
   \<and> periph (IO_writeU16 0x12 0xBEEF logging_io) = [0xBEEF3344]"
proof -
  have w: "wordOffset logging_io 0x11 = 4" "wordOffset logging_io 0x12 = 4"
    "wordOffset (IOMemoryRegion_new 65536 ([] :: u32 list)) 0x10 = 4"
    by (simp_all add: wordOffset_def logging_io_def registerHandler_def IOMemoryRegion_new_def)
  have h: "handlers logging_io 4
     = Some \<lparr> readFn = Some (\<lambda>p. (0x11223344, p)), writeFn = Some (\<lambda>w p. p @ [w]) \<rparr>"
    by (simp add: logging_io_def registerHandler_def w(3))
  have h1: "handlers logging_io (wordOffset logging_io 0x11)
     = Some \<lparr> readFn = Some (\<lambda>p. (0x11223344, p)), writeFn = Some (\<lambda>w p. p @ [w]) \<rparr>"
    and h2: "handlers logging_io (wordOffset logging_io 0x12)
     = Some \<lparr> readFn = Some (\<lambda>p. (0x11223344, p)), writeFn = Some (\<lambda>w p. p @ [w]) \<rparr>"
    by (simp_all add: w h)
  have p: "periph logging_io = []"
    by (simp add: logging_io_def registerHandler_def IOMemoryRegion_new_def)
  have m: "mergeByte 0x11 0x11223344 0xAB = 0x1122AB44" "mergeHalf 0x12 0x11223344 0xBEEF = 0xBEEF3344"
    by (simp_all add: mergeByte_def mergeHalf_def)
  note c4 = conjunct2 [THEN conjunct2, THEN conjunct2, THEN conjunct2]
  show ?thesis
    using io_subword_write_is_read_modify_write [OF h1, of "0xAB" 0, THEN c4, rule_format,
        of "\<lambda>p. (0x11223344, p)" "\<lambda>w p. p @ [w]"]
      io_subword_write_is_read_modify_write [OF h2, of "0xBEEF" 0, THEN c4, rule_format,
        of "\<lambda>p. (0x11223344, p)" "\<lambda>w p. p @ [w]"]
    by (simp add: h1 h2 p m)
qed

section \<open>Interrupt controller\<close>

lemma and_exp_eq_0: "n < 32 \<Longrightarrow> ((w :: u32) AND 2 ^ n = 0) = (\<not> bit w n)"
  by (simp add: and_exp_eq_0_iff_not_bit)

lemma bit_or_exp: "n < 32 \<Longrightarrow> bit ((w :: u32) OR 2 ^ n) n"
  by (simp add: bit_simps)

text \<open>
  Claim C7. For every IRQ line \<open>n\<close> in 0..31, after \<open>trigger(cpu, n)\<close>: STATUS bit \<open>n\<close> is
  set and MASK is as before; if MASK bit \<open>n\<close> is 1 the CPU has entered the exception of
  cause \<open>n\<close> (and the entry is counted in \<open>processed\<close>); if MASK bit \<open>n\<close> is 0 the CPU is
  unchanged, no entry is counted and the trigger is counted as blocked. A later write
  of any word to MASK changes MASK only: the controller has no CPU to signal, the line
  stays pending and no entry is counted.
\<close>

theorem trigger_sets_pending_and_is_gated_by_mask:
  fixes c :: "'m CPU" and ic :: InterruptController and n :: nat and v :: u32
  assumes "n < 32"
  defines "res \<equiv> trigger (Some c) (int n) ic"
  shows "bit (INT_STATUS (fst res)) n
       \<and> INT_MASK (fst res) = INT_MASK ic
       \<and> (bit (INT_MASK ic) n \<longrightarrow>
            snd res = Some (exception n c) \<and> processed (fst res) = processed ic + 1)
       \<and> (\<not> bit (INT_MASK ic) n \<longrightarrow>
            snd res = Some c \<and> processed (fst res) = processed ic
            \<and> blocked (fst res) = blocked ic + 1)
       \<and> INTC_writeU32 0 v (fst res) = (fst res)\<lparr> INT_MASK := v \<rparr>"
  unfolding res_def using assms(1)
  by (simp add: trigger_def Let_def and_exp_eq_0 bit_or_exp INTC_writeU32_def)

text \<open>
  Line 5 on a reset CPU: with MASK \<open>= 0x20\<close> the CPU enters exception 5 (PC \<open>= cr3 + 20\<close>);
  with MASK \<open>= 0\<close> it is left alone, and writing \<open>0x20\<close> to MASK afterwards leaves the line
  pending and the count of entries at 0.
\<close>

theorem trigger_witness:
  "(5::nat) < 32
   \<and> bit (INT_MASK (INTC_reset\<lparr> INT_MASK := 0x20 \<rparr>)) 5
   \<and> bit (INT_STATUS (fst (trigger (Some (reset None :: unit MIU CPU)) 5
                            (INTC_reset\<lparr> INT_MASK := 0x20 \<rparr>)))) 5
   \<and> snd (trigger (Some (reset None :: unit MIU CPU)) 5 (INTC_reset\<lparr> INT_MASK := 0x20 \<rparr>))
       = Some (exception 5 (reset None))
   \<and> pc (exception 5 (reset None :: unit MIU CPU)) = 20
   \<and> \<not> bit (INT_MASK INTC_reset) 5
   \<and> bit (INT_STATUS (fst (trigger (Some (reset None :: unit MIU CPU)) 5 INTC_reset))) 5
   \<and> snd (trigger (Some (reset None :: unit MIU CPU)) 5 INTC_reset) = Some (reset None)
   \<and> processed (fst (trigger (Some (reset None :: unit MIU CPU)) 5 INTC_reset)) = 0
   \<and> processed (INTC_writeU32 0 0x20
         (fst (trigger (Some (reset None :: unit MIU CPU)) 5 INTC_reset))) = 0
   \<and> bit (INT_STATUS (INTC_writeU32 0 0x20
         (fst (trigger (Some (reset None :: unit MIU CPU)) 5 INTC_reset)))) 5"
proof -
  have five: "(5::nat) < 32" by simp
  have m1: "bit (INT_MASK (INTC_reset\<lparr> INT_MASK := 0x20 \<rparr>)) 5"
    by (simp add: INTC_reset_def)
  have m0: "\<not> bit (INT_MASK INTC_reset) 5"
    by (simp add: INTC_reset_def)
  have p: "pc (exception 5 (reset None :: unit MIU CPU)) = 20"
    by (simp add: exception_def packSR0_def Let_def reset_def)
  show ?thesis
    using trigger_sets_pending_and_is_gated_by_mask [OF five,
        of "reset None :: unit MIU CPU" "INTC_reset\<lparr> INT_MASK := 0x20 \<rparr>" "0x20"]
      trigger_sets_pending_and_is_gated_by_mask [OF five,
        of "reset None :: unit MIU CPU" "INTC_reset" "0x20"]
      m1 m0 p
    by (simp add: INTC_reset_def)
qed

section \<open>Timer channel\<close>



lemma tick_loop_stop:
  "cyclesUntilTick t < 2 ^ k \<Longrightarrow> tick_loop onCompare k (t, w, d) = (t, w, d)"
  by (subst tick_loop.simps) simp

lemma tick_loop_unfold:
  "2 ^ k \<le> cyclesUntilTick t \<Longrightarrow>
   tick_loop onCompare k (t, w, d) = tick_loop onCompare k (tick_body onCompare k (t, w, d))"
  by (subst tick_loop.simps) simp

lemma tick_body_count_up_quiet:
  assumes "\<not> countDown t" and "count t + 1 \<noteq> 0" and "count t + 1 \<noteq> cmp t"
  shows "tick_body onCompare k (t, w, d) =
     (t\<lparr> cyclesUntilTick := cyclesUntilTick t - 2 ^ k, ticks := ticks t + 1,
         count := count t + 1 \<rparr>, w, d)"
  using assms by (simp add: tick_body_def Let_def)

lemma tick_body_count_up_hit:
  assumes "\<not> countDown t" and "irqEnabled t" and "count t + 1 \<noteq> 0" and "count t + 1 = cmp t"
  shows "tick_body onCompare k (t, w, d) =
     (t\<lparr> cyclesUntilTick := cyclesUntilTick t - 2 ^ k, ticks := ticks t + 1,
         count := (if repeat t then 0 else cmp t), stat := stat t OR 0x01,
         compares := compares t + 1, interrupts := interrupts t + 1,
         enabled := (repeat t \<and> enabled t) \<rparr>, fire onCompare w, True)"
  using assms by (simp add: tick_body_def Let_def)

lemma unat_succ: "unat (x :: u32) + 1 < 2 ^ 32 \<Longrightarrow> unat (x + 1) = unat x + 1"
  by (simp add: unat_word_ariths)

lemma tick_loop_quiet:
  assumes "\<not> countDown t" and "unat (count t) + cyclesUntilTick t div 2 ^ k < unat (cmp t)"
  shows "tick_loop onCompare k (t, w, d) =
     (t\<lparr> cyclesUntilTick := cyclesUntilTick t mod 2 ^ k,
         ticks := ticks t + cyclesUntilTick t div 2 ^ k,
         count := count t + word_of_nat (cyclesUntilTick t div 2 ^ k) \<rparr>, w, d)"
  using assms
proof (induction "cyclesUntilTick t div 2 ^ k" arbitrary: t)
  case 0
  then have lt: "cyclesUntilTick t < 2 ^ k"
    by (simp add: div_eq_0_iff)
  show ?case
    using 0(1) [symmetric] lt by (simp add: tick_loop_stop)
next
  case (Suc j)
  have ge: "2 ^ k \<le> cyclesUntilTick t"
  proof (rule ccontr)
    assume "\<not> 2 ^ k \<le> cyclesUntilTick t"
    then have "cyclesUntilTick t div 2 ^ k = 0" by simp
    with Suc(2) show False by simp
  qed
  have bound: "unat (cmp t) < 2 ^ 32" using unsigned_less [of "cmp t"] by simp
  have c1: "unat (count t + 1) = unat (count t) + 1"
    using Suc(2) [symmetric] Suc(4) bound by (intro unat_succ) simp
  have ne0: "count t + 1 \<noteq> 0"
    using c1 by (metis add_is_0 unat_0 zero_neq_one)
  have necmp: "count t + 1 \<noteq> cmp t"
    using c1 Suc(2) [symmetric] Suc(4) by auto
  define t' where "t' = t\<lparr> cyclesUntilTick := cyclesUntilTick t - 2 ^ k, ticks := ticks t + 1,
         count := count t + 1 \<rparr>"
  have body: "tick_body onCompare k (t, w, d) = (t', w, d)"
    unfolding t'_def by (rule tick_body_count_up_quiet [OF Suc(3) ne0 necmp])
  have dv: "cyclesUntilTick t' div 2 ^ k = j"
    using Suc(2) [symmetric] ge le_div_geq [of "2 ^ k" "cyclesUntilTick t"] by (simp add: t'_def)
  have md: "cyclesUntilTick t' mod 2 ^ k = cyclesUntilTick t mod 2 ^ k"
    using ge le_mod_geq [of "2 ^ k" "cyclesUntilTick t"] by (simp add: t'_def)
  have ih: "tick_loop onCompare k (t', w, d) =
     (t'\<lparr> cyclesUntilTick := cyclesUntilTick t' mod 2 ^ k,
         ticks := ticks t' + cyclesUntilTick t' div 2 ^ k,
         count := count t' + word_of_nat (cyclesUntilTick t' div 2 ^ k) \<rparr>, w, d)"
  proof (rule Suc(1))
    show "j = cyclesUntilTick t' div 2 ^ k" using dv by simp
    show "\<not> countDown t'" using Suc(3) by (simp add: t'_def)
    show "unat (count t') + cyclesUntilTick t' div 2 ^ k < unat (cmp t')"
      using Suc(4) Suc(2) [symmetric] c1 dv by (simp add: t'_def)
  qed
  show ?case
    apply (subst tick_loop_unfold [OF ge])
    apply (simp only: body ih dv md)
    apply (simp add: t'_def Suc(2) [symmetric])
    done
qed


lemma tick_loop_hit:
  assumes "\<not> countDown t" and "irqEnabled t"
    and "unat (count t) + cyclesUntilTick t div 2 ^ k = unat (cmp t)"
    and "cyclesUntilTick t div 2 ^ k = Suc j"
  shows "tick_loop onCompare k (t, w, d) =
     (t\<lparr> cyclesUntilTick := cyclesUntilTick t mod 2 ^ k,
         ticks := ticks t + cyclesUntilTick t div 2 ^ k,
         count := (if repeat t then 0 else cmp t), stat := stat t OR 0x01,
         compares := compares t + 1, interrupts := interrupts t + 1,
         enabled := (repeat t \<and> enabled t) \<rparr>, fire onCompare w, True)"
  using assms
proof (induction j arbitrary: t)
  case 0
  have ge: "2 ^ k \<le> cyclesUntilTick t"
  proof (rule ccontr)
    assume "\<not> 2 ^ k \<le> cyclesUntilTick t"
    then have "cyclesUntilTick t div 2 ^ k = 0" by simp
    with 0(4) show False by simp
  qed
  have bound: "unat (cmp t) < 2 ^ 32" using unsigned_less [of "cmp t"] by simp
  have c1: "unat (count t + 1) = unat (count t) + 1"
    using 0(3,4) bound by (intro unat_succ) simp
  have ne0: "count t + 1 \<noteq> 0"
    using c1 by (metis add_is_0 unat_0 zero_neq_one)
  have eq: "count t + 1 = cmp t"
    using c1 0(3,4) by (intro word_unat_eq_iff [THEN iffD2]) simp
  have dv: "(cyclesUntilTick t - 2 ^ k) div 2 ^ k = 0"
    using 0(4) ge le_div_geq [of "2 ^ k" "cyclesUntilTick t"] by simp
  then have lt: "cyclesUntilTick t - 2 ^ k < 2 ^ k"
    by (simp add: div_eq_0_iff)
  have md: "cyclesUntilTick t mod 2 ^ k = cyclesUntilTick t - 2 ^ k"
    using ge lt le_mod_geq [of "2 ^ k" "cyclesUntilTick t"] by simp
  show ?case
    apply (subst tick_loop_unfold [OF ge])
    apply (simp only: tick_body_count_up_hit [OF 0(1) 0(2) ne0 eq])
    apply (subst tick_loop_stop)
     apply (simp add: lt)
    apply (simp add: md 0(4))
    done
next
  case (Suc j)
  have ge: "2 ^ k \<le> cyclesUntilTick t"
  proof (rule ccontr)
    assume "\<not> 2 ^ k \<le> cyclesUntilTick t"
    then have "cyclesUntilTick t div 2 ^ k = 0" by simp
    with Suc(5) show False by simp
  qed
  have bound: "unat (cmp t) < 2 ^ 32" using unsigned_less [of "cmp t"] by simp
  have c1: "unat (count t + 1) = unat (count t) + 1"
    using Suc(4,5) bound by (intro unat_succ) simp
  have ne0: "count t + 1 \<noteq> 0"
    using c1 by (metis add_is_0 unat_0 zero_neq_one)
  have necmp: "count t + 1 \<noteq> cmp t"
    using c1 Suc(4,5) by auto
  define t' where "t' = t\<lparr> cyclesUntilTick := cyclesUntilTick t - 2 ^ k, ticks := ticks t + 1,
         count := count t + 1 \<rparr>"
  have body: "tick_body onCompare k (t, w, d) = (t', w, d)"
    unfolding t'_def by (rule tick_body_count_up_quiet [OF Suc(2) ne0 necmp])
  have dv: "cyclesUntilTick t' div 2 ^ k = Suc j"
    using Suc(5) ge le_div_geq [of "2 ^ k" "cyclesUntilTick t"] by (simp add: t'_def)
  have md: "cyclesUntilTick t' mod 2 ^ k = cyclesUntilTick t mod 2 ^ k"
    using ge le_mod_geq [of "2 ^ k" "cyclesUntilTick t"] by (simp add: t'_def)
  have ih: "tick_loop onCompare k (t', w, d) =
     (t'\<lparr> cyclesUntilTick := cyclesUntilTick t' mod 2 ^ k,
         ticks := ticks t' + cyclesUntilTick t' div 2 ^ k,
         count := (if repeat t' then 0 else cmp t'), stat := stat t' OR 0x01,
         compares := compares t' + 1, interrupts := interrupts t' + 1,
         enabled := (repeat t' \<and> enabled t') \<rparr>, fire onCompare w, True)"
  proof (rule Suc(1))
    show "\<not> countDown t'" using Suc(2) by (simp add: t'_def)
    show "irqEnabled t'" using Suc(3) by (simp add: t'_def)
    show "unat (count t') + cyclesUntilTick t' div 2 ^ k = unat (cmp t')"
      using Suc(4,5) c1 dv by (simp add: t'_def)
    show "cyclesUntilTick t' div 2 ^ k = Suc j" by (rule dv)
  qed
  show ?case
    apply (subst tick_loop_unfold [OF ge])
    apply (simp only: body ih dv md)
    apply (simp add: t'_def Suc(5))
    done
qed


subsection \<open>Calls of \<open>tick\<close> on a count-up channel\<close>

lemma counting_less: "counting c k m t \<Longrightarrow> m < unat c * 2 ^ k"
proof -
  assume a: "counting c k m t"
  then have "m < (unat (count t) + 1) * 2 ^ k"
    by (auto simp add: counting_def)
  also have "\<dots> \<le> unat c * 2 ^ k"
    using a by (intro mult_le_mono1) (simp add: counting_def)
  finally show ?thesis .
qed

lemma tick_quiet:
  assumes "counting c k m t" and "m + n < unat c * 2 ^ k"
  shows "\<exists>t'. tick onCompare n (t, w) = (False, t', w) \<and> counting c k (m + n) t'
           \<and> stat t' = stat t \<and> interrupts t' = interrupts t"
proof -
  define t1 where "t1 = t\<lparr> cyclesUntilTick := cyclesUntilTick t + n \<rparr>"
  define q where "q = cyclesUntilTick t1 div 2 ^ k"
  define t' where "t' = t1\<lparr> cyclesUntilTick := cyclesUntilTick t1 mod 2 ^ k,
         ticks := ticks t1 + q, count := count t1 + word_of_nat q \<rparr>"
  note a = assms(1) [unfolded counting_def]
  have tot: "unat (count t) * 2 ^ k + cyclesUntilTick t1 = m + n"
    using a by (simp add: t1_def)
  have "(unat (count t) * 2 ^ k + cyclesUntilTick t1) div 2 ^ k < unat c"
    using assms(2) tot by (simp add: less_mult_imp_div_less)
  then have lt: "unat (count t) + q < unat c"
    by (simp add: q_def)
  have bound: "unat c < 2 ^ 32" using unsigned_less [of c] by simp
  have uq: "unat (count t + word_of_nat q) = unat (count t) + q"
    using lt bound by (simp add: unat_word_ariths unat_of_nat)
  have loop: "tick_loop onCompare k (t1, w, False) = (t', w, False)"
    unfolding t'_def q_def
    by (rule tick_loop_quiet) (use a lt in \<open>simp_all add: t1_def q_def\<close>)
  have res: "tick onCompare n (t, w) = (False, t', w)"
    using a by (simp add: tick_def Let_def t1_def [symmetric] loop)
  have "counting c k (m + n) t'"
    unfolding counting_def
    using a lt uq tot
    by (simp add: t'_def t1_def q_def add_mult_distrib algebra_simps)
  moreover have "stat t' = stat t \<and> interrupts t' = interrupts t"
    by (simp add: t'_def t1_def)
  ultimately show ?thesis using res by blast
qed


text \<open>The state a channel is left in by its compare hit: no pending cycles.\<close>

lemma tick_hit:
  assumes "counting c k m t" and "m + n = unat c * 2 ^ k"
  shows "\<exists>t'. tick onCompare n (t, w) = (True, t', fire onCompare w)
           \<and> cyclesUntilTick t' = 0 \<and> stat t' = stat t OR 0x01
           \<and> interrupts t' = interrupts t + 1 \<and> clockScale t' = k"
proof -
  define t1 where "t1 = t\<lparr> cyclesUntilTick := cyclesUntilTick t + n \<rparr>"
  define q where "q = cyclesUntilTick t1 div 2 ^ k"
  define t' where "t' = t1\<lparr> cyclesUntilTick := cyclesUntilTick t1 mod 2 ^ k,
         ticks := ticks t1 + cyclesUntilTick t1 div 2 ^ k,
         count := (if repeat t1 then 0 else cmp t1), stat := stat t1 OR 0x01,
         compares := compares t1 + 1, interrupts := interrupts t1 + 1,
         enabled := (repeat t1 \<and> enabled t1) \<rparr>"
  note a = assms(1) [unfolded counting_def]
  have tot: "unat (count t) * 2 ^ k + cyclesUntilTick t1 = unat c * 2 ^ k"
    using a assms(2) by (simp add: t1_def)
  then have cut: "cyclesUntilTick t1 = (unat c - unat (count t)) * 2 ^ k"
    using a by (simp add: diff_mult_distrib)
  have q: "q = unat c - unat (count t)"
    by (simp add: q_def cut)
  have md: "cyclesUntilTick t1 mod 2 ^ k = 0"
    by (simp add: cut)
  have "0 < q" using q a by simp
  then obtain j where j: "q = Suc j"
    using gr0_implies_Suc by blast
  have loop: "tick_loop onCompare k (t1, w, False) = (t', fire onCompare w, True)"
    unfolding t'_def
  proof (rule tick_loop_hit)
    show "\<not> countDown t1" "irqEnabled t1" using a by (simp_all add: t1_def)
    show "unat (count t1) + cyclesUntilTick t1 div 2 ^ k = unat (cmp t1)"
      using a q by (simp add: t1_def q_def)
    show "cyclesUntilTick t1 div 2 ^ k = Suc j"
      using j by (simp add: q_def)
  qed
  have irq: "irqEnabled t'" using a by (simp add: t'_def t1_def)
  have res: "tick onCompare n (t, w) = (True, t', fire onCompare w)"
    using a irq by (simp add: tick_def Let_def t1_def [symmetric] loop)
  moreover have "cyclesUntilTick t' = 0 \<and> stat t' = stat t OR 0x01
           \<and> interrupts t' = interrupts t + 1 \<and> clockScale t' = k"
    using a md by (simp add: t'_def) (simp add: t1_def)
  ultimately show ?thesis by blast
qed

lemma tick_zero_idle:
  assumes "cyclesUntilTick t = 0"
  shows "snd (tick onCompare 0 (t, w)) = (t, w)"
proof (cases "enabled t")
  case False
  then show ?thesis using assms by (simp add: tick_def)
next
  case True
  have st: "tick_loop onCompare (clockScale t) (t, w, False) = (t, w, False)"
    by (rule tick_loop_stop) (simp add: assms)
  have "t\<lparr> cyclesUntilTick := cyclesUntilTick t + 0 \<rparr> = t" by simp
  then show ?thesis using True by (simp add: tick_def Let_def st)
qed

lemma tick_all_zeros:
  assumes "cyclesUntilTick t = 0" and "sum_list ns = 0"
  shows "tick_all onCompare ns (t, w) = (t, w)"
  using assms
proof (induction ns)
  case Nil
  then show ?case by simp
next
  case (Cons n ns)
  then have "n = 0" and "sum_list ns = 0" by simp_all
  then show ?case using Cons by (simp add: tick_zero_idle)
qed

lemma tick_all_counting:
  assumes "counting c k m t" and "m + sum_list ns = unat c * 2 ^ k"
  shows "stat (fst (tick_all onCompare ns (t, w))) = stat t OR 0x01
       \<and> snd (tick_all onCompare ns (t, w)) = fire onCompare w
       \<and> interrupts (fst (tick_all onCompare ns (t, w))) = interrupts t + 1"
  using assms
proof (induction ns arbitrary: m t)
  case Nil
  then show ?case using counting_less [of c k m t] by simp
next
  case (Cons n ns)
  show ?case
  proof (cases "m + n < unat c * 2 ^ k")
    case True
    from tick_quiet [OF Cons.prems(1) True, of onCompare w]
    obtain t' where t': "tick onCompare n (t, w) = (False, t', w)"
      "counting c k (m + n) t'" "stat t' = stat t" "interrupts t' = interrupts t"
      by blast
    have "m + n + sum_list ns = unat c * 2 ^ k" using Cons.prems(2) by simp
    from Cons.IH [OF t'(2) this] show ?thesis
      by (simp add: t'(1,3,4))
  next
    case False
    then have "m + n = unat c * 2 ^ k \<and> sum_list ns = 0"
      using Cons.prems(2) by (simp del: sum_list_eq_0_iff)
    then have eq: "m + n = unat c * 2 ^ k" and z: "sum_list ns = 0"
      by blast+
    from tick_hit [OF Cons.prems(1) eq, of onCompare w]
    obtain t' where t': "tick onCompare n (t, w) = (True, t', fire onCompare w)"
      "cyclesUntilTick t' = 0" "stat t' = stat t OR 0x01" "interrupts t' = interrupts t + 1"
      by blast
    show ?thesis
      by (simp add: t'(1) tick_all_zeros [OF t'(2) z] t'(3,4))
  qed
qed


lemma counting_start:
  assumes "enabled t" and "\<not> countDown t" and "irqEnabled t" and "cmp t \<noteq> 0"
    and "count t = 0" and "cyclesUntilTick t = 0"
  shows "counting (cmp t) (clockScale t) 0 t"
  using assms by (simp add: counting_def unat_gt_0)

text \<open>
  Claim C3. For a count-up channel with enable and interrupt enable set, scale \<open>s\<close>,
  compare value \<open>C > 0\<close>, count 0 and no cycles pending, feeding exactly \<open>C * 2^s\<close> cycles
  through \<open>tick\<close>, in one call or split over any sequence of calls, sets STAT bit 0 and
  calls the interrupt callback exactly once (the world is the callback applied once,
  and the interrupt count goes up by one). The same channel initialised with COUNT
  equal to CMP does not fire before its first logical tick: a call that feeds fewer
  than \<open>2^s\<close> cycles returns false and changes only the pending cycles; and the register
  writes that configure a channel leave STAT alone.
\<close>

theorem timer_compare_fires_once:
  fixes t :: Timer and w :: 'w
  assumes "enabled t" and "\<not> countDown t" and "irqEnabled t" and "cmp t \<noteq> 0"
    and "count t = 0" and "cyclesUntilTick t = 0"
    and "sum_list ns = unat (cmp t) * 2 ^ clockScale t"
  shows "bit (stat (fst (tick_all onCompare ns (t, w)))) 0
       \<and> snd (tick_all onCompare ns (t, w)) = fire onCompare w
       \<and> interrupts (fst (tick_all onCompare ns (t, w))) = interrupts t + 1
       \<and> fst (tick onCompare (unat (cmp t) * 2 ^ clockScale t) (t, w))
       \<and> bit (stat (fst (snd (tick onCompare (unat (cmp t) * 2 ^ clockScale t) (t, w))))) 0
       \<and> snd (snd (tick onCompare (unat (cmp t) * 2 ^ clockScale t) (t, w))) = fire onCompare w
       \<and> (\<forall>n < 2 ^ clockScale t.
             tick onCompare n (t\<lparr> count := cmp t \<rparr>, w)
               = (False, t\<lparr> count := cmp t, cyclesUntilTick := n \<rparr>, w))
       \<and> stat (writeCtrl v (writeCompare x (writeCount x t0))) = stat t0"
proof -
  note c = counting_start [OF assms(1-6)]
  have a: "stat (fst (tick_all onCompare ns (t, w))) = stat t OR 0x01
       \<and> snd (tick_all onCompare ns (t, w)) = fire onCompare w
       \<and> interrupts (fst (tick_all onCompare ns (t, w))) = interrupts t + 1"
    by (rule tick_all_counting [OF c]) (simp add: assms(7))
  have b0: "bit (stat t OR 0x01) 0" by (simp add: bit_simps)
  from tick_hit [OF c, of "unat (cmp t) * 2 ^ clockScale t" onCompare w]
  obtain t' where t': "tick onCompare (unat (cmp t) * 2 ^ clockScale t) (t, w)
        = (True, t', fire onCompare w)" "stat t' = stat t OR 0x01"
    by auto
  have quiet: "tick onCompare n (t\<lparr> count := cmp t \<rparr>, w)
               = (False, t\<lparr> count := cmp t, cyclesUntilTick := n \<rparr>, w)"
    if "n < 2 ^ clockScale t" for n
  proof -
    have "tick_loop onCompare (clockScale t)
            (t\<lparr> count := cmp t, cyclesUntilTick := n \<rparr>, w, False)
          = (t\<lparr> count := cmp t, cyclesUntilTick := n \<rparr>, w, False)"
      by (rule tick_loop_stop) (simp add: that)
    then show ?thesis
      using assms(1,6) by (simp add: tick_def Let_def)
  qed
  have cfg: "stat (writeCtrl v (writeCompare x (writeCount x t0))) = stat t0"
    by (simp add: writeCtrl_def writeCompare_def writeCount_def)
  show ?thesis
    using a b0 t' quiet cfg by simp
qed

text \<open>
  The configured channel of the scenario, fed \<open>100 * 2^2 = 400\<close> cycles as 250 and then
  150: STAT bit 0 is set and the controller has been triggered once on line 5, which is
  unmasked, so the CPU has entered exception 5.
\<close>

theorem timer_compare_fires_once_witness:
  "enabled timer_scenario \<and> \<not> countDown timer_scenario \<and> irqEnabled timer_scenario
   \<and> cmp timer_scenario = 100 \<and> clockScale timer_scenario = 2
   \<and> count timer_scenario = 0 \<and> cyclesUntilTick timer_scenario = 0
   \<and> sum_list [250, 150] = unat (100 :: u32) * 2 ^ 2
   \<and> bit (stat (fst (tick_all (Some timer_onInterrupt) [250, 150]
                        (timer_scenario, world_scenario)))) 0
   \<and> interrupts (fst (tick_all (Some timer_onInterrupt) [250, 150]
                        (timer_scenario, world_scenario))) = 1
   \<and> snd (tick_all (Some timer_onInterrupt) [250, 150] (timer_scenario, world_scenario))
       = trigger (Some (reset None)) 5 (INTC_reset\<lparr> INT_MASK := 0x20 \<rparr>)
   \<and> triggered (fst (snd (tick_all (Some timer_onInterrupt) [250, 150]
                        (timer_scenario, world_scenario)))) = 1
   \<and> snd (snd (tick_all (Some timer_onInterrupt) [250, 150] (timer_scenario, world_scenario)))
       = Some (exception 5 (reset None))"
proof -
  have cfg: "enabled timer_scenario" "\<not> countDown timer_scenario" "irqEnabled timer_scenario"
    "cmp timer_scenario \<noteq> 0" "count timer_scenario = 0" "cyclesUntilTick timer_scenario = 0"
    "cmp timer_scenario = 100" "clockScale timer_scenario = 2" "interrupts timer_scenario = 0"
    by (simp_all add: timer_scenario_def writeCtrl_def writeCompare_def writeCount_def
        Timer_new_def)
  have s: "sum_list [250, 150] = unat (cmp timer_scenario) * 2 ^ clockScale timer_scenario"
    by (simp add: cfg(7,8))
  have f: "fire (Some timer_onInterrupt) world_scenario
           = trigger (Some (reset None)) 5 (INTC_reset\<lparr> INT_MASK := 0x20 \<rparr>)"
    by (simp add: fire_def timer_onInterrupt_def world_scenario_def IRQ_TIMER_def)
  have tr: "trigger (Some (reset None :: unit MIU CPU)) 5 (INTC_reset\<lparr> INT_MASK := 0x20 \<rparr>)
           = (INTC_reset\<lparr> INT_MASK := 0x20, triggered := 1, INT_STATUS := 0x20, processed := 1 \<rparr>,
              Some (exception 5 (reset None)))"
    by (simp add: trigger_def Let_def INTC_reset_def)
  show ?thesis
    using timer_compare_fires_once [OF cfg(1-6) s, of "Some timer_onInterrupt" world_scenario]
    by (simp add: cfg f tr)
qed

section \<open>UART reception\<close>

lemma or_and_same: "((w :: u32) OR m) AND m = m"
  by (simp add: bit_eq_iff bit_simps)

lemma and_not_and_same: "((w :: u32) AND NOT m) AND m = 0"
  by (simp add: bit_eq_iff bit_simps)

text \<open>
  What the receive side does for one byte. \<open>receiveData\<close> appends the low eight bits of
  the byte to the queue, writes them to the RX data register and sets RX-ready (\<open>0x40\<close>);
  a read of offset \<open>0x00\<close> returns the RX data register and clears RX-ready.
\<close>

lemma receiveData_then_read:
  fixes u :: UART and byte :: u32
  defines "u1 \<equiv> receiveData byte u"
  shows "rxQueue u1 = rxQueue u @ [byte AND 0xFF]"
    and "RX_BUF u1 = byte AND 0xFF"
    and "STATUS u1 AND 0x40 = 0x40"
    and "fst (UART_readU32 0x0C u1) AND 0x40 = 0x40"
    and "fst (UART_readU32 0x00 u1) = byte AND 0xFF"
    and "STATUS (snd (UART_readU32 0x00 u1)) AND 0x40 = 0"
  unfolding u1_def
  by (simp_all add: receiveData_def UART_readU32_def Let_def STATUS_RX_READY_def
      or_and_same and_not_and_same [of _ "0x40", simplified])

text \<open>No register read removes anything from the queue.\<close>

lemma UART_readU32_keeps_queue: "rxQueue (snd (UART_readU32 address u)) = rxQueue u"
  by (simp add: UART_readU32_def Let_def)

text \<open>
  \<open>getNextRXByte\<close>, which no register access calls, is the one place that removes the
  head byte; it clears RX-ready only when it finds the queue already empty.
\<close>

lemma getNextRXByte_dequeues:
  "getNextRXByte (u\<lparr> rxQueue := b # bs \<rparr>) = (b, u\<lparr> rxQueue := bs \<rparr>)"
  by (simp add: getNextRXByte_def)

text \<open>
  Claim C4, evaluated on the code at a failing input. \<open>0x41\<close> and then \<open>0x42\<close> are enqueued
  on a reset UART. The queue is \<open>[0x41, 0x42]\<close> and RX-ready is set, as the claim says.
  But the RX data register holds \<open>0x42\<close>, not the head byte \<open>0x41\<close>; a read of offset
  \<open>0x00\<close> returns \<open>0x42\<close>, removes nothing from the queue, and clears RX-ready although
  the queue is not empty; a second read returns \<open>0x42\<close> again, so \<open>0x41\<close> is never
  delivered. \<open>getNextRXByte\<close> on the same state returns the head byte \<open>0x41\<close>, leaves
  \<open>[0x42]\<close> in the queue and leaves RX-ready set.
\<close>

theorem uart_read_does_not_dequeue:
  "rxQueue (receiveData 0x42 (receiveData 0x41 UART_reset)) = [0x41, 0x42]
   \<and> STATUS (receiveData 0x42 (receiveData 0x41 UART_reset)) AND 0x40 = 0x40
   \<and> RX_BUF (receiveData 0x42 (receiveData 0x41 UART_reset)) = 0x42
   \<and> fst (UART_readU32 0x00 (receiveData 0x42 (receiveData 0x41 UART_reset))) = 0x42
   \<and> rxQueue (snd (UART_readU32 0x00 (receiveData 0x42 (receiveData 0x41 UART_reset))))
       = [0x41, 0x42]
   \<and> STATUS (snd (UART_readU32 0x00 (receiveData 0x42 (receiveData 0x41 UART_reset)))) AND 0x40
       = 0
   \<and> fst (UART_readU32 0x00
         (snd (UART_readU32 0x00 (receiveData 0x42 (receiveData 0x41 UART_reset))))) = 0x42
   \<and> fst (getNextRXByte (receiveData 0x42 (receiveData 0x41 UART_reset))) = 0x41
   \<and> rxQueue (snd (getNextRXByte (receiveData 0x42 (receiveData 0x41 UART_reset)))) = [0x42]
   \<and> STATUS (snd (getNextRXByte (receiveData 0x42 (receiveData 0x41 UART_reset)))) AND 0x40
       = 0x40"
  by (simp add: receiveData_def UART_readU32_def getNextRXByte_def Let_def STATUS_RX_READY_def
      UART_reset_def)

end
